theory Spec2Isabelle
  imports Complex_Main
begin

section \<open>Python values and errors\<close>

text \<open>
  The repository is Python 2 code on top of numpy and scipy. Every \<open>raise\<close> of the
  source, and every exception a built-in operation raises on the paths modelled here,
  is a value of the type \<open>error\<close>; a function that can raise returns \<open>error + 'a\<close>
  with \<open>Inl\<close> for the exception. Each constructor carries the site of the raise.
\<close>

datatype value_error =
    OutOfBounds             \<comment> \<open>transitions.py:217, "not in the bounds of the input data"\<close>
  | BadProfileKind          \<comment> \<open>transitions.py:226, "available profile types are ..."\<close>
  | NegativeContinuumOrder  \<comment> \<open>transitions.py:238\<close>
  | NoOverlap               \<comment> \<open>transitions.py:249, "continuum regions do not overlap"\<close>
  | NegativeSurrounding     \<comment> \<open>transitions.py:257\<close>
  | CannotEstimateFWHM      \<comment> \<open>transitions.py:452, "cannot estimate initial fwhm"\<close>
  | NonFiniteInitial        \<comment> \<open>transitions.py:608, "non-finite initial value"\<close>
  | InvalidSeed             \<comment> \<open>transitions.py:621, "invalid value returned by minimisation function"\<close>
  | OutsideFiniteRange      \<comment> \<open>solvers/profiles.py:72, "outside of the observed finite spectral range"\<close>
  | UnknownElement          \<comment> \<open>utils.py:515, "element is not known"\<close>
  | InvalidLiteral          \<comment> \<open>\<open>int\<close> of a string that is no integer literal\<close>
  | EmptyReduction          \<comment> \<open>numpy: \<open>min\<close> of a zero-size array\<close>

datatype type_error =
    IntOfException          \<comment> \<open>\<open>int(x)\<close> where \<open>x\<close> is an exception instance\<close>
  | NoneOrderPlusOne        \<comment> \<open>\<open>continuum_order + 1\<close> where \<open>continuum_order\<close> is \<open>None\<close>\<close>
  | UpdateWithNone          \<comment> \<open>\<open>dict.update(None)\<close>\<close>

datatype error =
    ValueError value_error
  | TypeError type_error
  | KeyError string
  | IndexError
  | NameError string
  | AttributeError string
  | AssertionError
  | NotImplementedError
  | ExternalError string    \<comment> \<open>raised inside numpy, scipy or the synthesiser\<close>

text \<open>
  Subscripting a Python list or a numpy array with an integer: \<open>-1\<close> is the last
  item, \<open>-len\<close> the first, and anything outside raises \<open>IndexError\<close>.
\<close>

definition py_index :: "'a list \<Rightarrow> int \<Rightarrow> error + 'a" where
  "py_index xs i =
     (if 0 \<le> i \<and> i < int (length xs) then Inr (xs ! nat i)
      else if i < 0 \<and> - int (length xs) \<le> i then Inr (xs ! nat (int (length xs) + i))
      else Inl IndexError)"

text \<open>\<open>int(x)\<close> of a float truncates towards zero.\<close>

definition py_int :: "real \<Rightarrow> int" where
  "py_int r = (if 0 \<le> r then \<lfloor>r\<rfloor> else \<lceil>r\<rceil>)"

text \<open>
  \<open>str.lower\<close> and \<open>str.upper\<close> on byte strings: only the ASCII letters change.
\<close>

definition lower_char :: "char \<Rightarrow> char" where
  "lower_char c =
     (let n = (of_char c :: nat) in if 65 \<le> n \<and> n \<le> 90 then char_of (n + 32) else c)"

definition upper_char :: "char \<Rightarrow> char" where
  "upper_char c =
     (let n = (of_char c :: nat) in if 97 \<le> n \<and> n \<le> 122 then char_of (n - 32) else c)"

definition py_lower :: "string \<Rightarrow> string" where
  "py_lower s = map lower_char s"

definition py_upper :: "string \<Rightarrow> string" where
  "py_upper s = map upper_char s"

text \<open>
  \<open>str.split()\<close> without arguments: the maximal runs of characters that are not
  whitespace (space, tab, newline, vertical tab, form feed, carriage return).
\<close>

definition is_space :: "char \<Rightarrow> bool" where
  "is_space c = (let n = (of_char c :: nat) in n = 32 \<or> (9 \<le> n \<and> n \<le> 13))"

fun split_acc :: "string \<Rightarrow> string \<Rightarrow> string list" where
  "split_acc cur [] = (if cur = [] then [] else [rev cur])"
| "split_acc cur (c # cs) =
     (if is_space c then (if cur = [] then split_acc [] cs else rev cur # split_acc [] cs)
      else split_acc (c # cur) cs)"

definition py_split :: "string \<Rightarrow> string list" where
  "py_split s = split_acc [] s"

text \<open>
  \<open>s.replace(old, new)\<close> for a non-empty \<open>old\<close>: every occurrence, scanning from the
  left without overlap. After a match the scan skips the rest of the occurrence
  (\<open>skip\<close> characters still to pass over).
\<close>

fun starts_with :: "'a list \<Rightarrow> 'a list \<Rightarrow> bool" where
  "starts_with [] ys = True"
| "starts_with (x # xs) [] = False"
| "starts_with (x # xs) (y # ys) = (if x = y then starts_with xs ys else False)"

fun replace_from :: "string \<Rightarrow> string \<Rightarrow> nat \<Rightarrow> string \<Rightarrow> string" where
  "replace_from old new skip [] = []"
| "replace_from old new (Suc skip) (c # cs) = replace_from old new skip cs"
| "replace_from old new 0 (c # cs) =
     (if old \<noteq> [] \<and> starts_with old (c # cs)
      then new @ replace_from old new (length old - 1) cs
      else c # replace_from old new 0 cs)"

definition py_replace :: "string \<Rightarrow> string \<Rightarrow> string \<Rightarrow> string" where
  "py_replace old new s = replace_from old new 0 s"

text \<open>\<open>s.count("I")\<close> for a one-character needle.\<close>

definition py_count_char :: "char \<Rightarrow> string \<Rightarrow> int" where
  "py_count_char c s = int (length (filter (\<lambda>d. d = c) s))"

text \<open>
  \<open>int(s)\<close> of a string: optional surrounding whitespace, an optional sign, then decimal
  digits; anything else raises \<open>ValueError\<close>.
\<close>

definition is_digit :: "char \<Rightarrow> bool" where
  "is_digit c = (let n = (of_char c :: nat) in 48 \<le> n \<and> n \<le> 57)"

definition digits_value :: "string \<Rightarrow> int" where
  "digits_value ds = foldl (\<lambda>acc c. 10 * acc + (int (of_char c) - 48)) 0 ds"

definition py_int_of_string :: "string \<Rightarrow> error + int" where
  "py_int_of_string s =
     (let t = rev (dropWhile is_space (rev (dropWhile is_space s)));
          (sgn, ds) = (case t of
                         c # r \<Rightarrow> if c = CHR ''-'' then (-1, r)
                                  else if c = CHR ''+'' then (1, r) else (1, t)
                       | [] \<Rightarrow> (1, []))
      in if ds \<noteq> [] \<and> list_all is_digit ds then Inr (sgn * digits_value ds)
         else Inl (ValueError InvalidLiteral))"

section \<open>The periodic table (utils.py)\<close>

text \<open>
  \<open>atomic_number\<close> and \<open>element\<close> both build the table from the same three string
  literals: the main table, into which the lanthanoids are spliced after \<open>Ba\<close> and the
  actinoids after \<open>Ra\<close>, split at whitespace. The line breaks of the literal are
  the newline characters here.
\<close>

definition periodic_table_text :: string where
  "periodic_table_text =
     ''H                                                  He'' @ [CHR 0x0A] @
     ''                        Li Be                               B  C  N  O  F  Ne'' @ [CHR 0x0A] @
     ''                        Na Mg                               Al Si P  S  Cl Ar'' @ [CHR 0x0A] @
     ''                        K  Ca Sc Ti V  Cr Mn Fe Co Ni Cu Zn Ga Ge As Se Br Kr'' @ [CHR 0x0A] @
     ''                        Rb Sr Y  Zr Nb Mo Tc Ru Rh Pd Ag Cd In Sn Sb Te I  Xe'' @ [CHR 0x0A] @
     ''                        Cs Ba Lu Hf Ta W  Re Os Ir Pt Au Hg Tl Pb Bi Po At Rn'' @ [CHR 0x0A] @
     ''                        Fr Ra Lr Rf Db Sg Bh Hs Mt Ds Rg Cn UUt''"

definition lanthanoids :: string where
  "lanthanoids = ''La Ce Pr Nd Pm Sm Eu Gd Tb Dy Ho Er Tm Yb''"

definition actinoids :: string where
  "actinoids = ''Ac Th Pa U  Np Pu Am Cm Bk Cf Es Fm Md No''"

definition periodic_table :: "string list" where
  "periodic_table =
     py_split (py_replace '' Ra '' ('' Ra '' @ actinoids @ '' '')
                (py_replace '' Ba '' ('' Ba '' @ lanthanoids @ '' '') periodic_table_text))"

text \<open>
  A Python value that is either an integer or an exception instance: \<open>atomic_number\<close>
  hands one back, because line 515 of utils.py is \<open>return ValueError(...)\<close>.
\<close>

datatype int_or_exception = PyInt int | PyException error

text \<open>\<open>periodic_table.index(element) + 1\<close>, the position of the first occurrence.\<close>

fun index_of :: "'a \<Rightarrow> 'a list \<Rightarrow> int" where
  "index_of x [] = 0"
| "index_of x (y # ys) = (if x = y then 0 else 1 + index_of x ys)"

definition atomic_number :: "string \<Rightarrow> int_or_exception" where
  "atomic_number el =
     (if el \<notin> set periodic_table then PyException (ValueError UnknownElement)
      else PyInt (index_of el periodic_table + 1))"

text \<open>
  \<open>element\<close> starts with \<open>int(atomic_number)\<close>: truncation for a float, the identity for
  an integer, a \<open>TypeError\<close> for an exception instance.
\<close>

definition element_of_int :: "int \<Rightarrow> error + string" where
  "element_of_int z = py_index periodic_table (z - 1)"

definition element_of_float :: "real \<Rightarrow> error + string" where
  "element_of_float r = element_of_int (py_int r)"

definition element_of_value :: "int_or_exception \<Rightarrow> error + string" where
  "element_of_value v =
     (case v of PyInt z \<Rightarrow> element_of_int z
              | PyException _ \<Rightarrow> Inl (TypeError IntOfException))"

section \<open>The species parser (transitions.py)\<close>

text \<open>
  \<open>_parse_ionisation_level\<close> for a string argument (its only caller passes the second
  token of the species string).
\<close>

definition parse_ionisation_level :: "string \<Rightarrow> error + int" where
  "parse_ionisation_level s =
     (let u = py_upper s
      in if CHR ''I'' \<in> set u then Inr (py_count_char (CHR ''I'') u)
         else py_int_of_string u)"

text \<open>
  The species given to \<open>_parse_species\<close>. Its first statement is \<open>float(species)\<close>, so a
  number and a string spelling a number take the same path: both are \<open>SpFloat\<close> of the
  value (a finite float, read as the real number it denotes). \<open>SpStr s\<close> is a string on
  which \<open>float\<close> raises \<open>ValueError\<close>: one that does not spell a number, as an element
  symbol with or without an ionisation token.
\<close>

datatype species_spec = SpNone | SpFloat real | SpStr string

text \<open>
  The result is the tuple (element, atomic number, ionisation level, species code);
  \<open>None\<close> stands for the tuple of four \<open>None\<close>s that an unspecified species gives.
\<close>

type_synonym species_info = "string \<times> int \<times> int \<times> real"

definition parse_species :: "species_spec \<Rightarrow> error + species_info option" where
  "parse_species sp =
     (case sp of
        SpNone \<Rightarrow> Inr None
      | SpStr s \<Rightarrow>
          (let z = atomic_number s
           in case element_of_value z of
                Inl e \<Rightarrow> Inl e
              | Inr el \<Rightarrow>
                  (case (if CHR '' '' \<in> set s
                         then (case py_index (py_split s) 1 of
                                 Inl e \<Rightarrow> Inl e
                               | Inr tok \<Rightarrow> parse_ionisation_level tok)
                         else Inr 1) of
                     Inl e \<Rightarrow> Inl e
                   | Inr ion \<Rightarrow>
                       (case z of
                          PyInt n \<Rightarrow> Inr (Some (el, n, ion, real_of_int n + real_of_int ion / 10))
                        | PyException _ \<Rightarrow> Inl (TypeError IntOfException))))
      | SpFloat r \<Rightarrow>
          (case element_of_float r of
             Inl e \<Rightarrow> Inl e
           | Inr el \<Rightarrow>
               (let z = py_int r; ion = py_int (10 * (r - real_of_int z)) + 1
                in Inr (Some (el, z, ion, r)))))"

text \<open>The first three components, which are what a caller compares.\<close>

definition identity_of :: "species_info \<Rightarrow> string \<times> int \<times> int" where
  "identity_of t = (case t of (el, z, ion, code) \<Rightarrow> (el, z, ion))"

section \<open>Floats, arrays and dictionaries\<close>

text \<open>
  A float is a real number or a non-finite value (\<open>nan\<close>, \<open>inf\<close>): \<open>None\<close> is the
  non-finite one. Rounding and overflow are left out. Sums, differences and products
  with a non-finite operand are non-finite, as in IEEE arithmetic; numpy's division by
  zero gives a non-finite value without raising; every comparison with a non-finite
  value is false, as it is for \<open>nan\<close>.
\<close>

type_synonym fl = "real option"

definition is_finite :: "fl \<Rightarrow> bool" where
  "is_finite a = (a \<noteq> None)"

definition fl_add :: "fl \<Rightarrow> fl \<Rightarrow> fl" where
  "fl_add a b = (case (a, b) of (Some x, Some y) \<Rightarrow> Some (x + y) | _ \<Rightarrow> None)"

definition fl_sub :: "fl \<Rightarrow> fl \<Rightarrow> fl" where
  "fl_sub a b = (case (a, b) of (Some x, Some y) \<Rightarrow> Some (x - y) | _ \<Rightarrow> None)"

definition fl_mul :: "fl \<Rightarrow> fl \<Rightarrow> fl" where
  "fl_mul a b = (case (a, b) of (Some x, Some y) \<Rightarrow> Some (x * y) | _ \<Rightarrow> None)"

definition fl_div :: "fl \<Rightarrow> fl \<Rightarrow> fl" where
  "fl_div a b =
     (case (a, b) of (Some x, Some y) \<Rightarrow> if y = 0 then None else Some (x / y) | _ \<Rightarrow> None)"

definition fl_abs :: "fl \<Rightarrow> fl" where
  "fl_abs a = map_option abs a"

definition fl_gt :: "fl \<Rightarrow> fl \<Rightarrow> bool" where
  "fl_gt a b = (case (a, b) of (Some x, Some y) \<Rightarrow> x > y | _ \<Rightarrow> False)"

text \<open>\<open>np.clip(a, lo, hi)\<close> for a scalar: \<open>nan\<close> stays \<open>nan\<close>.\<close>

definition np_clip :: "fl \<Rightarrow> real \<Rightarrow> real \<Rightarrow> fl" where
  "np_clip a lo hi = map_option (\<lambda>x. min (max x lo) hi) a"

text \<open>\<open>np.polyval(p, x)\<close>: Horner's scheme from the leading coefficient, starting at 0.\<close>

definition polyval :: "fl list \<Rightarrow> fl \<Rightarrow> fl" where
  "polyval p x = foldl (\<lambda>y c. fl_add (fl_mul y x) c) (Some 0) p"

text \<open>
  \<open>a.searchsorted(v)\<close> on an increasing array: the number of entries below \<open>v\<close>.
\<close>

definition searchsorted :: "real list \<Rightarrow> real \<Rightarrow> nat" where
  "searchsorted a v = length (takeWhile (\<lambda>x. x < v) a)"

text \<open>\<open>np.diff(a).min()\<close>; the minimum of an empty array raises.\<close>

definition np_diff :: "real list \<Rightarrow> real list" where
  "np_diff a = map (\<lambda>(x, y). y - x) (zip a (tl a))"

definition min_step :: "real list \<Rightarrow> error + real" where
  "min_step a =
     (case np_diff a of [] \<Rightarrow> Inl (ValueError EmptyReduction)
                      | d # ds \<Rightarrow> Inr (foldl min d ds))"

text \<open>Boolean-mask selection \<open>a[mask]\<close> and slice assignment \<open>a[i:j] = v\<close>.\<close>

definition select :: "bool list \<Rightarrow> 'a list \<Rightarrow> 'a list" where
  "select m a = map snd (filter fst (zip m a))"

definition assign_slice :: "nat \<Rightarrow> nat \<Rightarrow> 'a \<Rightarrow> 'a list \<Rightarrow> 'a list" where
  "assign_slice i j v a = map (\<lambda>(k, x). if i \<le> k \<and> k < j then v else x) (zip [0..<length a] a)"

text \<open>
  A Python dictionary as an association list with distinct keys. \<open>d[k] = v\<close> replaces
  the value of a key that is present and appends a new key; \<open>d[k]\<close> raises
  \<open>KeyError\<close> on a missing key; \<open>dict(zip(ks, vs))\<close> inserts the pairs from the left.
\<close>

type_synonym 'v dict = "(string \<times> 'v) list"

fun dict_set :: "'v dict \<Rightarrow> string \<Rightarrow> 'v \<Rightarrow> 'v dict" where
  "dict_set [] k v = [(k, v)]"
| "dict_set ((k', v') # d) k v = (if k' = k then (k, v) # d else (k', v') # dict_set d k v)"

definition dict_get :: "'v dict \<Rightarrow> string \<Rightarrow> error + 'v" where
  "dict_get d k = (case map_of d k of None \<Rightarrow> Inl (KeyError k) | Some v \<Rightarrow> Inr v)"

definition dict_has :: "'v dict \<Rightarrow> string \<Rightarrow> bool" where
  "dict_has d k = (map_of d k \<noteq> None)"

definition dict_update :: "'v dict \<Rightarrow> (string \<times> 'v) list \<Rightarrow> 'v dict" where
  "dict_update d kvs = foldl (\<lambda>acc (k, v). dict_set acc k v) d kvs"

definition dict_zip :: "string list \<Rightarrow> 'v list \<Rightarrow> 'v dict" where
  "dict_zip ks vs = dict_update [] (zip ks vs)"

text \<open>Sequencing of calls that may raise.\<close>

definition and_then :: "error + 'a \<Rightarrow> ('a \<Rightarrow> error + 'b) \<Rightarrow> error + 'b" where
  "and_then m f = (case m of Inl e \<Rightarrow> Inl e | Inr x \<Rightarrow> f x)"

fun all_ok :: "(error + 'a) list \<Rightarrow> error + 'a list" where
  "all_ok [] = Inr []"
| "all_ok (m # ms) =
     (case m of Inl e \<Rightarrow> Inl e
              | Inr x \<Rightarrow> (case all_ok ms of Inl e \<Rightarrow> Inl e | Inr xs \<Rightarrow> Inr (x # xs)))"

text \<open>\<open>"continuum.{}".format(i)\<close>: the decimal digits of \<open>i\<close> after the prefix.\<close>

fun decimal :: "nat \<Rightarrow> string" where
  "decimal n =
     (if n < 10 then [char_of (48 + n)] else decimal (n div 10) @ [char_of (48 + n mod 10)])"

definition continuum_key :: "nat \<Rightarrow> string" where
  "continuum_key i = ''continuum.'' @ decimal i"

text \<open>\<open>range(continuum_order + 1)\<close> for an integer order.\<close>

definition continuum_keys :: "int \<Rightarrow> string list" where
  "continuum_keys order = map continuum_key [0..<nat (order + 1)]"

section \<open>Spectra, transitions and the numerical routines (transitions.py)\<close>

text \<open>
  \<open>Spectrum1D\<close> (module \<open>oracle.specutils\<close>) is not part of the sources at hand. The
  fitter reads three arrays of it, \<open>disp\<close>, \<open>flux\<close> and \<open>ivariance\<close> (the inverse of the
  flux variance), one entry per pixel, with \<open>disp\<close> increasing. A spectrum built from a
  dispersion and a flux array only, as the synthetic and the diagnostic spectra are,
  is a \<open>curve\<close>.
\<close>

record spectrum =
  disp :: "real list"
  flux :: "fl list"
  ivariance :: "fl list"

type_synonym curve = "real list \<times> fl list"

text \<open>What \<open>chi_sq\<close> returns: a scalar, or one value per finite pixel.\<close>

datatype chi_val = Scalar fl | PerPixel "fl list"

record return_spectra =
  data_spectrum :: spectrum
  continuum_spectrum :: curve
  blending_spectrum_unsmoothed :: curve
  blending_spectrum_smoothed :: curve
  fitted_spectrum :: curve

datatype chi_out = Plain chi_val | Full chi_val chi_val "return_spectra option"

text \<open>The dictionary \<open>op_info\<close> that \<open>fit_profile\<close> assembles, one field per key.\<close>

record op_info =
  info_p0 :: "fl dict"
  info_chi_sq :: chi_val
  info_r_chi_sq :: chi_val
  info_fopt :: fl
  info_num_iter :: nat
  info_num_funcalls :: nat
  info_warnflag :: nat
  info_profile_kind :: string
  info_equivalent_width :: real
  info_spectra :: return_spectra

text \<open>
  The attributes of \<open>AtomicTransition\<close> that \<open>fit_profile\<close> reads and writes.
  \<open>blending_transitions\<close> and \<open>continuum_regions\<close> are two-dimensional arrays (rows
  of numbers, and rows \<open>[start, end]\<close>); \<open>equivalent_width\<close> and \<open>_profile\<close> do not
  exist before the first successful fit (\<open>None\<close> here).
\<close>

record transition =
  wavelength :: real
  blending_transitions :: "real list list option"
  mask_intervals :: "(real \<times> real) list option"
  continuum_regions :: "(real \<times> real) list"
  equivalent_width :: "real option"
  profile :: "(real dict \<times> op_info) option"

text \<open>
  The arguments of \<open>fit_profile\<close>. \<open>continuum_order\<close> and \<open>surrounding\<close> are numbers
  already (the conversions \<open>int(...)\<close> and \<open>float(...)\<close> succeed); \<open>kwargs\<close> holds the
  extra keyword arguments, of which \<open>initial_line_depth_tolerance\<close> is read. The
  argument \<open>continuum_regions\<close> of the signature is never read by the body and is left
  out. In \<open>optimise_kwargs\<close> a truth value is the number 1 or 0.
\<close>

record fit_args =
  initial_theta :: "fl dict option"
  kind :: string
  continuum_order :: "int option"
  surrounding :: real
  detect_nearby_lines :: bool
  constrain_parameters :: "(real option \<times> real option) dict option"
  synthesise_kwargs :: "fl dict option"
  optimise_kwargs :: "fl dict option"
  full_output :: bool
  kwargs :: "real dict"

text \<open>
  The routines the fitter calls and that are outside the sources at hand: the two
  \<open>Spectrum1D\<close> methods, the synthesiser, \<open>profiles.gaussian\<close>, and numpy's and scipy's
  \<open>polyfit\<close>, \<open>std\<close>, \<open>gaussian_filter\<close>, \<open>interp\<close> and \<open>fmin\<close>. They are parameters of the
  model. \<open>gaussian\<close> and \<open>interp\<close> are evaluated per pixel of the grid they are given;
  \<open>fmin\<close> receives the objective and the start vector and returns the tuple
  (xopt, fopt, iterations, function calls, warnflag) of its full output.
\<close>

record numerics =
  slice :: "real \<times> real \<Rightarrow> spectrum \<Rightarrow> error + spectrum"
  mask_by_dispersion :: "(real \<times> real) list \<Rightarrow> spectrum \<Rightarrow> error + spectrum"
  synthesise :: "fl list \<Rightarrow> real list list \<Rightarrow> real \<Rightarrow> real \<Rightarrow> fl dict \<Rightarrow> error + curve"
  gaussian :: "fl \<Rightarrow> fl \<Rightarrow> real \<Rightarrow> fl"
  polyfit :: "real list \<Rightarrow> fl list \<Rightarrow> int \<Rightarrow> error + fl list"
  std :: "fl list \<Rightarrow> fl"
  gaussian_filter :: "fl list \<Rightarrow> fl \<Rightarrow> fl list"
  interp :: "real \<Rightarrow> real list \<Rightarrow> fl list \<Rightarrow> fl"
  fmin :: "(real list \<Rightarrow> error + fl) \<Rightarrow> real list \<Rightarrow> fl dict
             \<Rightarrow> error + (real list \<times> fl \<times> nat \<times> nat \<times> nat)"

section \<open>fit_profile: checking the arguments (lines 213 to 270)\<close>

text \<open>utils.overlap, as written: the end of the first interval is not looked at.\<close>

definition overlap :: "real \<Rightarrow> real \<Rightarrow> real \<Rightarrow> real \<Rightarrow> bool" where
  "overlap start_a end_a start_b end_b = (end_b \<ge> start_b \<and> end_b \<ge> start_a)"

text \<open>
  \<open>if not (data.disp[-1] > self.wavelength > data.disp[0])\<close>: a chained comparison,
  which reads \<open>disp[0]\<close> only when the first comparison holds.
\<close>

definition check_bounds :: "real list \<Rightarrow> real \<Rightarrow> error + unit" where
  "check_bounds d w =
     and_then (py_index d (-1)) (\<lambda>hi.
       if hi > w
       then and_then (py_index d 0) (\<lambda>lo.
              if w > lo then Inr () else Inl (ValueError OutOfBounds))
       else Inl (ValueError OutOfBounds))"

definition check_kind :: "string \<Rightarrow> error + string" where
  "check_kind k =
     (let k' = py_lower k
      in if k' \<notin> set [''gaussian'', ''voigt'', ''lorentzian'']
         then Inl (ValueError BadProfileKind)
         else if k' \<in> set [''voigt'', ''lorentzian''] then Inl NotImplementedError
         else Inr k')"

definition check_continuum_order :: "int option \<Rightarrow> error + int option" where
  "check_continuum_order order =
     (case order of
        None \<Rightarrow> Inr None
      | Some n \<Rightarrow> if n < 0 then Inl (ValueError NegativeContinuumOrder) else Inr (Some n))"

text \<open>\<open>self.continuum_regions.size\<close>: two numbers per row.\<close>

definition regions_size :: "(real \<times> real) list \<Rightarrow> nat" where
  "regions_size rs = 2 * length rs"

text \<open>
  The loop over the continuum regions at lines 243 to 246. Its body ends with a
  \<open>break\<close> at the level of the \<open>for\<close>, so the loop stops after the first row.
\<close>

fun scan_regions :: "(real \<times> real) list \<Rightarrow> real list \<Rightarrow> bool \<Rightarrow> error + bool" where
  "scan_regions [] d found = Inr found"
| "scan_regions ((start, stop) # rest) d found =
     and_then (py_index d 0) (\<lambda>lo.
     and_then (py_index d (-1)) (\<lambda>hi.
       Inr (if overlap start stop lo hi then True else found)))"

definition check_continuum_regions :: "(real \<times> real) list \<Rightarrow> real list \<Rightarrow> error + unit" where
  "check_continuum_regions rs d =
     (if regions_size rs \<ge> 2
      then and_then (scan_regions rs d False) (\<lambda>any_acceptable.
             if \<not> any_acceptable then Inl (ValueError NoOverlap) else Inr ())
      else Inr ())"

definition check_surrounding :: "real \<Rightarrow> error + real" where
  "check_surrounding s = (if s < 0 then Inl (ValueError NegativeSurrounding) else Inr s)"

text \<open>The keys of \<open>constrain_parameters\<close> are put in lower case.\<close>

definition lower_keys :: "'v dict option \<Rightarrow> 'v dict" where
  "lower_keys c =
     (case c of None \<Rightarrow> [] | Some d \<Rightarrow> dict_update [] (map (\<lambda>(k, v). (py_lower k, v)) d))"

text \<open>What the checks hand on: the profile kind in lower case, the order, the
  width of the window and the constraints.\<close>

record checked_args =
  c_kind :: string
  c_order :: "int option"
  c_surrounding :: real
  c_constraints :: "(real option \<times> real option) dict"
  c_initial_theta :: "fl dict"

definition check_arguments :: "transition \<Rightarrow> spectrum \<Rightarrow> fit_args \<Rightarrow> error + checked_args" where
  "check_arguments tr data args =
     and_then (check_bounds (disp data) (wavelength tr)) (\<lambda>_.
     and_then (check_kind (kind args)) (\<lambda>k.
     and_then (check_continuum_order (continuum_order args)) (\<lambda>order.
     and_then (check_continuum_regions (continuum_regions tr) (disp data)) (\<lambda>_.
     and_then (check_surrounding (surrounding args)) (\<lambda>s.
       Inr \<lparr> c_kind = k, c_order = order, c_surrounding = s,
             c_constraints = lower_keys (constrain_parameters args),
             c_initial_theta = (case initial_theta args of None \<Rightarrow> [] | Some t \<Rightarrow> t) \<rparr>)))))"

section \<open>fit_profile: the parameters, the window and the blending spectrum (lines 272 to 342)\<close>

definition profile_parameters :: "string \<Rightarrow> error + string list" where
  "profile_parameters k =
     dict_get [(''gaussian'', [''fwhm'']), (''lorentzian'', [''scale'']),
               (''voigt'', [''fwhm'', ''shape''])] k"

definition stellar_parameter_keys :: "string list" where
  "stellar_parameter_keys =
     [''effective_temperature'', ''surface_gravity'', ''metallicity'', ''microturbulence'']"

definition has_blending :: "transition \<Rightarrow> bool" where
  "has_blending tr = (case blending_transitions tr of None \<Rightarrow> False | Some b \<Rightarrow> length b > 0)"

text \<open>
  The list \<open>parameters\<close>: the line depth, the profile parameters, the wavelength when
  it is constrained, the continuum coefficients when an order is given and there are
  no continuum regions, and the blending width when there are blending transitions
  (which need the four stellar parameters in \<open>initial_theta\<close>).
\<close>

definition establish_parameters :: "transition \<Rightarrow> checked_args \<Rightarrow> error + string list" where
  "establish_parameters tr c =
     and_then (profile_parameters (c_kind c)) (\<lambda>pp.
       let ps = [''line_depth''] @ pp
                @ (if dict_has (c_constraints c) ''wavelength'' then [''wavelength''] else [])
                @ (case c_order c of
                     None \<Rightarrow> []
                   | Some n \<Rightarrow> if 2 > regions_size (continuum_regions tr)
                               then continuum_keys n else [])
       in if has_blending tr
          then (if \<not> list_all (dict_has (c_initial_theta c)) stellar_parameter_keys
                then Inl (KeyError ''stellar parameters'')
                else Inr (ps @ [''blending_fwhm'']))
          else Inr ps)"

definition dict_setdefault :: "'v dict \<Rightarrow> string \<Rightarrow> 'v \<Rightarrow> 'v dict" where
  "dict_setdefault d k v = (if dict_has d k then d else d @ [(k, v)])"

text \<open>
  The start of \<open>theta\<close>: the nominal wavelength, then every parameter that
  \<open>initial_theta\<close> supplies, through \<open>setdefault\<close> (a supplied wavelength does not
  replace the nominal one).
\<close>

definition seed_theta :: "real \<Rightarrow> string list \<Rightarrow> fl dict \<Rightarrow> fl dict" where
  "seed_theta w parameters init =
     foldl (\<lambda>th p. case map_of init p of None \<Rightarrow> th | Some v \<Rightarrow> dict_setdefault th p v)
           [(''wavelength'', Some w)] parameters"

text \<open>
  The blending spectrum: synthesised over the window when \<open>blending_fwhm\<close> is a
  parameter, with \<open>oversample\<close> 4 and the finest pixel spacing as the wavelength step
  unless \<open>synthesise_kwargs\<close> sets them.
\<close>

definition make_blending_spectrum ::
  "numerics \<Rightarrow> transition \<Rightarrow> fl dict \<Rightarrow> fl dict option \<Rightarrow> string list \<Rightarrow> spectrum
     \<Rightarrow> real \<times> real \<Rightarrow> error + curve option" where
  "make_blending_spectrum env tr init skw parameters data region =
     (if ''blending_fwhm'' \<in> set parameters
      then and_then (all_ok (map (dict_get init) stellar_parameter_keys)) (\<lambda>stellar.
           and_then (min_step (disp data)) (\<lambda>pixel_size.
             let kw0 = (case skw of None \<Rightarrow> [] | Some d \<Rightarrow> d);
                 kw1 = dict_setdefault kw0 ''oversample'' (Some 4);
                 kw2 = dict_setdefault kw1 ''wavelength_step'' (Some pixel_size);
                 lines = (case blending_transitions tr of None \<Rightarrow> [] | Some b \<Rightarrow> b)
             in and_then (synthesise env stellar lines (fst region) (snd region) kw2)
                  (\<lambda>bs. Inr (Some bs))))
      else Inr None)"

text \<open>Everything that is fixed before the refinement loop starts.\<close>

record prepared =
  p_args :: checked_args
  p_parameters :: "string list"
  p_data :: spectrum
  p_finite :: "bool list"
  p_missing :: "string list"
  p_theta :: "fl dict"
  p_blending :: "curve option"

definition prepare :: "numerics \<Rightarrow> transition \<Rightarrow> spectrum \<Rightarrow> fit_args \<Rightarrow> error + prepared" where
  "prepare env tr data0 args =
     and_then (check_arguments tr data0 args) (\<lambda>c.
     and_then (establish_parameters tr c) (\<lambda>parameters.
       let region = (wavelength tr - c_surrounding c, wavelength tr + c_surrounding c)
       in and_then (slice env region data0) (\<lambda>data1.
          and_then (case mask_intervals tr of
                      None \<Rightarrow> Inr data1
                    | Some m \<Rightarrow> mask_by_dispersion env m data1) (\<lambda>data.
          and_then (make_blending_spectrum env tr (c_initial_theta c) (synthesise_kwargs args)
                      parameters data region) (\<lambda>bs.
            Inr \<lparr> p_args = c, p_parameters = parameters, p_data = data,
                  p_finite = map is_finite (flux data),
                  p_missing = filter (\<lambda>p. \<not> dict_has (c_initial_theta c) p) parameters,
                  p_theta = seed_theta (wavelength tr) parameters (c_initial_theta c),
                  p_blending = bs \<rparr>)))))"

section \<open>fit_profile: the refinement loop (lines 351 to 523)\<close>

text \<open>
  The variables the loop reads and writes. \<open>continuum_mask = finite\<close> at line 392
  makes the two names one array, so that a later write through \<open>continuum_mask\<close> is
  seen through \<open>finite\<close> as well: \<open>l_same_array\<close> records that. \<open>finite =
  np.isfinite(initial_fwhm)\<close> at line 462 binds \<open>finite\<close> to a new array of two
  entries. \<open>continuum_at_wavelength\<close> is a local name that exists only once line 422 has
  run (\<open>None\<close> before). \<open>l_kwargs\<close> is the dictionary of extra keyword arguments, from
  which \<open>pop\<close> removes the tolerance.
\<close>

record loop_state =
  l_theta :: "fl dict"
  l_finite :: "bool list"
  l_continuum_mask :: "bool list"
  l_same_array :: bool
  l_coefficients :: "fl list"
  l_continuum_at_wavelength :: "fl option"
  l_iterate_on_continuum :: bool
  l_kwargs :: "real dict"

definition initial_state :: "prepared \<Rightarrow> fit_args \<Rightarrow> loop_state" where
  "initial_state p args =
     \<lparr> l_theta = p_theta p, l_finite = p_finite p,
       l_continuum_mask = replicate (length (disp (p_data p))) False,
       l_same_array = False, l_coefficients = [], l_continuum_at_wavelength = None,
       l_iterate_on_continuum = False, l_kwargs = kwargs args \<rparr>"

text \<open>A write into the array \<open>continuum_mask\<close>, seen through \<open>finite\<close> when they are one.\<close>

definition write_mask :: "bool list \<Rightarrow> loop_state \<Rightarrow> loop_state" where
  "write_mask m st =
     (if l_same_array st then st\<lparr>l_continuum_mask := m, l_finite := m\<rparr>
      else st\<lparr>l_continuum_mask := m\<rparr>)"

text \<open>
  \<open>a[mask]\<close> with a mask of another length is an error in numpy; \<open>a *= b\<close> needs
  \<open>b\<close> of the same length or of length one.
\<close>

definition bool_index :: "bool list \<Rightarrow> 'a list \<Rightarrow> error + 'a list" where
  "bool_index m a =
     (if length m = length a then Inr (select m a) else Inl (ExternalError ''boolean index''))"

definition imul_mask :: "bool list \<Rightarrow> bool list \<Rightarrow> error + bool list" where
  "imul_mask m f =
     (if length f = length m then Inr (map (\<lambda>(a, b). a \<and> b) (zip m f))
      else if length f = 1 then Inr (map (\<lambda>a. a \<and> hd f) m)
      else Inl (ExternalError ''broadcast''))"

definition mark_regions :: "(real \<times> real) list \<Rightarrow> real list \<Rightarrow> bool list \<Rightarrow> bool list" where
  "mark_regions rs d m =
     foldl (\<lambda>acc (start, stop). assign_slice (searchsorted d start) (searchsorted d stop) True acc)
           m rs"

text \<open>Lines 385 to 392: the mask of the pixels the continuum is fitted to.\<close>

definition continuum_fit_mask :: "transition \<Rightarrow> prepared \<Rightarrow> loop_state \<Rightarrow> error + loop_state" where
  "continuum_fit_mask tr p st =
     (if regions_size (continuum_regions tr) \<ge> 2
      then (let st1 = write_mask (mark_regions (continuum_regions tr) (disp (p_data p))
                                    (l_continuum_mask st)) st
            in and_then (imul_mask (l_continuum_mask st1) (l_finite st1)) (\<lambda>m.
                 Inr (write_mask m st1)))
      else Inr (st\<lparr>l_continuum_mask := l_finite st, l_same_array := True\<rparr>))"

text \<open>Lines 356 to 417: the continuum coefficients of this round.\<close>

definition continuum_step ::
  "numerics \<Rightarrow> transition \<Rightarrow> prepared \<Rightarrow> fit_args \<Rightarrow> loop_state \<Rightarrow> error + loop_state" where
  "continuum_step env tr p args st =
     (case c_order (p_args p) of
        None \<Rightarrow> Inr (st\<lparr>l_coefficients := [Some 1]\<rparr>)
      | Some n \<Rightarrow>
          if 2 > regions_size (continuum_regions tr)
             \<and> \<not> list_ex (starts_with ''continuum.'') (p_missing p)
          then and_then (all_ok (map (dict_get (c_initial_theta (p_args p))) (continuum_keys n)))
                 (\<lambda>cs. Inr (st\<lparr>l_coefficients := cs,
                                l_theta := dict_update (l_theta st) (zip (continuum_keys n) cs)\<rparr>))
          else
            and_then (continuum_fit_mask tr p st) (\<lambda>st1.
            and_then (bool_index (l_continuum_mask st1) (disp (p_data p))) (\<lambda>xs.
            and_then (bool_index (l_continuum_mask st1) (flux (p_data p))) (\<lambda>ys.
            and_then (case p_blending p of
                        None \<Rightarrow> polyfit env xs ys n
                      | Some bs \<Rightarrow>
                          polyfit env xs
                            (map (\<lambda>(x, y). fl_div y (interp env x (fst bs) (snd bs))) (zip xs ys))
                            n) (\<lambda>cs.
              let st2 = st1\<lparr>l_coefficients := cs,
                            l_iterate_on_continuum :=
                              (if detect_nearby_lines args then True
                               else l_iterate_on_continuum st1)\<rparr>
              in Inr (if ''continuum.0'' \<in> set (p_parameters p)
                      then st2\<lparr>l_theta := dict_update (l_theta st2) (zip (continuum_keys n) cs)\<rparr>
                      else st2))))))"

text \<open>\<open>kwargs.pop(key, default)\<close>: the value and the dictionary without the key.\<close>

definition dict_pop :: "real dict \<Rightarrow> string \<Rightarrow> real \<Rightarrow> real \<times> real dict" where
  "dict_pop d k dflt =
     (case map_of d k of None \<Rightarrow> (dflt, d) | Some v \<Rightarrow> (v, filter (\<lambda>(k', _). k' \<noteq> k) d))"

text \<open>Lines 421 to 430: the first guess of the line depth.\<close>

definition line_depth_step :: "transition \<Rightarrow> prepared \<Rightarrow> loop_state \<Rightarrow> error + loop_state" where
  "line_depth_step tr p st =
     (if ''line_depth'' \<in> set (p_missing p)
      then (let caw = polyval (l_coefficients st) (Some (wavelength tr));
                index = searchsorted (disp (p_data p)) (wavelength tr)
            in and_then (py_index (flux (p_data p)) (int index)) (\<lambda>f.
                 let line_depth = fl_sub (Some 1) (fl_div f caw);
                     (tolerance, kw) = dict_pop (l_kwargs st) ''initial_line_depth_tolerance''
                                         (1 / 1000)
                 in Inr (st\<lparr>l_continuum_at_wavelength := Some caw, l_kwargs := kw,
                            l_theta := dict_set (l_theta st) ''line_depth''
                                         (np_clip line_depth tolerance (1 - tolerance))\<rparr>)))
      else Inr st)"

text \<open>
  Lines 434 to 465: the first guess of the width, from the pixels nearest to the line
  on either side whose flux is above the half-depth level.
\<close>

definition fwhm_step :: "transition \<Rightarrow> prepared \<Rightarrow> loop_state \<Rightarrow> error + loop_state" where
  "fwhm_step tr p st =
     (if ''fwhm'' \<in> set (p_missing p)
      then (case l_continuum_at_wavelength st of
              None \<Rightarrow> Inl (NameError ''continuum_at_wavelength'')
            | Some caw \<Rightarrow>
                and_then (dict_get (l_theta st) ''line_depth'') (\<lambda>ld.
                  let w = wavelength tr;
                      mid_flux = fl_mul caw (fl_sub (Some 1) (fl_mul (Some (1 / 2)) ld));
                      index = searchsorted (disp (p_data p)) w;
                      above = map (\<lambda>f. fl_gt f mid_flux) (flux (p_data p));
                      pos = select (drop index above) (drop index (disp (p_data p)));
                      neg = select (take index above) (take index (disp (p_data p)));
                      pos_mid_point = (if pos = [] then None else Some (hd pos));
                      neg_mid_point = (if neg = [] then None else Some (last neg))
                  in if \<not> (is_finite pos_mid_point \<or> is_finite neg_mid_point)
                     then Inl (ValueError CannotEstimateFWHM)
                     else
                       (let initial_fwhm = fl_sub pos_mid_point neg_mid_point
                        in if \<not> is_finite initial_fwhm
                           then (let both = [fl_mul (Some 2) (fl_sub pos_mid_point (Some w)),
                                             fl_mul (Some 2) (fl_sub (Some w) neg_mid_point)];
                                     fin = map is_finite both
                                 in and_then (py_index (select fin both) 0) (\<lambda>v.
                                      Inr (st\<lparr>l_finite := fin, l_same_array := False,
                                                l_theta := dict_set (l_theta st) ''fwhm'' v\<rparr>)))
                           else Inr (st\<lparr>l_theta := dict_set (l_theta st) ''fwhm'' initial_fwhm\<rparr>))))
      else Inr st)"

definition blending_fwhm_step :: "prepared \<Rightarrow> loop_state \<Rightarrow> error + loop_state" where
  "blending_fwhm_step p st =
     (if ''blending_fwhm'' \<in> set (p_missing p)
      then and_then (dict_get (l_theta st) ''fwhm'') (\<lambda>v.
             Inr (st\<lparr>l_theta := dict_set (l_theta st) ''blending_fwhm'' v\<rparr>))
      else Inr st)"

text \<open>
  The composite model on the data grid: the blending spectrum, smoothed with a Gaussian
  kernel and resampled (all ones without a blending spectrum), times the absorption
  profile \<open>1 - line_depth * gaussian(center, fwhm / 2.355, x)\<close>, times the continuum.
  The width of the kernel is looked up only when there is a blending spectrum.
\<close>

definition smoothed_blending ::
  "numerics \<Rightarrow> curve option \<Rightarrow> error + fl \<Rightarrow> real list \<Rightarrow> error + fl list" where
  "smoothed_blending env bs width d =
     (case bs of
        None \<Rightarrow> Inr (replicate (length d) (Some 1))
      | Some (bd, bf) \<Rightarrow>
          and_then width (\<lambda>wd.
          and_then (min_step bd) (\<lambda>step.
            let fwhm = fl_div wd (Some step);
                smooth = gaussian_filter env bf (fl_div fwhm (Some (2355 / 1000)))
            in Inr (map (\<lambda>x. interp env x bd smooth) d))))"

definition absorption_profile :: "numerics \<Rightarrow> fl \<Rightarrow> fl \<Rightarrow> fl \<Rightarrow> real list \<Rightarrow> fl list" where
  "absorption_profile env depth center fwhm d =
     map (\<lambda>x. fl_sub (Some 1)
                 (fl_mul depth (gaussian env center (fl_div fwhm (Some (2355 / 1000))) x))) d"

definition combine :: "fl list \<Rightarrow> fl list \<Rightarrow> fl list \<Rightarrow> fl list" where
  "combine blending absorption continuum =
     map (\<lambda>(b, a, c). fl_mul (fl_mul b a) c) (zip blending (zip absorption continuum))"

text \<open>
  Lines 515 to 523: the edges of the runs of outlier pixels alternate between the start
  and the end of a run; the mask is cleared from every start to the next edge (to the
  end of the array after the last edge).
\<close>

definition exclude_runs :: "nat list \<Rightarrow> bool \<Rightarrow> bool list \<Rightarrow> bool list" where
  "exclude_runs edges starts_on_even m =
     foldl (\<lambda>acc (i, index).
              if (i mod 2 = 0 \<and> starts_on_even) \<or> (i mod 2 > 0 \<and> \<not> starts_on_even)
              then assign_slice index
                     (if length edges > i + 1 then edges ! (i + 1) else length acc) False acc
              else acc)
           m (zip [0..<length edges] edges)"

text \<open>
  Lines 500 to 508: the residuals of the model, set to zero outside the continuum mask
  and divided by their spread over the mask; the outliers are the pixels beyond the
  threshold 1, and an edge is an index where the outlier flag changes to the next pixel.
\<close>

definition standardised :: "numerics \<Rightarrow> bool list \<Rightarrow> fl list \<Rightarrow> fl list \<Rightarrow> fl list" where
  "standardised env m model fluxes =
     (let differences = map (\<lambda>(a, f). fl_sub a f) (zip model fluxes);
          kept = map (\<lambda>(b, x). if b then x else Some 0) (zip m differences);
          sd = std env (select m kept)
      in map (\<lambda>x. fl_div x sd) kept)"

definition is_outlier :: "fl \<Rightarrow> bool" where
  "is_outlier s = fl_gt (fl_abs s) (Some 1)"

definition outlier_edges :: "fl list \<Rightarrow> nat list" where
  "outlier_edges sigmas =
     filter (\<lambda>i. is_outlier (sigmas ! i) \<noteq> is_outlier (sigmas ! (i + 1)))
            [0..<length sigmas - 1]"

text \<open>Lines 477 to 498: the model of the current round on the data grid.\<close>

definition round_model ::
  "numerics \<Rightarrow> transition \<Rightarrow> prepared \<Rightarrow> loop_state \<Rightarrow> fl list \<Rightarrow> fl \<Rightarrow> fl \<Rightarrow> fl list" where
  "round_model env tr p st bflux ld fw =
     (let d = disp (p_data p);
          center = (case map_of (l_theta st) ''wavelength'' of
                      None \<Rightarrow> Some (wavelength tr) | Some v \<Rightarrow> v);
          continuum = map (\<lambda>x. polyval (l_coefficients st) (Some x)) d
      in combine bflux (absorption_profile env ld center fw d) continuum)"

text \<open>Lines 473 to 523: the pixels in runs of outliers leave the continuum mask.\<close>

definition outlier_step ::
  "numerics \<Rightarrow> transition \<Rightarrow> prepared \<Rightarrow> loop_state \<Rightarrow> error + loop_state" where
  "outlier_step env tr p st =
     (if l_iterate_on_continuum st
      then
        and_then (smoothed_blending env (p_blending p) (dict_get (l_theta st) ''fwhm'')
                    (disp (p_data p))) (\<lambda>bflux.
        and_then (dict_get (l_theta st) ''line_depth'') (\<lambda>ld.
        and_then (dict_get (l_theta st) ''fwhm'') (\<lambda>fw.
          let sigmas = standardised env (l_continuum_mask st)
                         (round_model env tr p st bflux ld fw) (flux (p_data p));
              edges = outlier_edges sigmas
          in and_then (py_index edges 0) (\<lambda>e0.
             and_then (py_index sigmas (int e0 + 1)) (\<lambda>s1.
               Inr (write_mask (exclude_runs edges (is_outlier s1) (l_continuum_mask st))
                      st))))))
      else Inr st)"

text \<open>One round of the loop body, after its \<open>print\<close>.\<close>

definition round_body ::
  "numerics \<Rightarrow> transition \<Rightarrow> prepared \<Rightarrow> fit_args \<Rightarrow> loop_state \<Rightarrow> error + loop_state" where
  "round_body env tr p args st =
     and_then (continuum_step env tr p args st) (\<lambda>s1.
     and_then (line_depth_step tr p s1) (\<lambda>s2.
     and_then (fwhm_step tr p s2) (\<lambda>s3.
     and_then (blending_fwhm_step p s3) (\<lambda>s4.
       outlier_step env tr p s4))))"

text \<open>
  \<open>for kk in range(3)\<close>. Every round starts with \<open>print(kk, continuum_mask.sum())\<close>;
  the printed pairs are returned with the result, so that the rounds that ran can be
  read off. An exception in a round ends the loop and the call.
\<close>

fun rounds ::
  "numerics \<Rightarrow> transition \<Rightarrow> prepared \<Rightarrow> fit_args \<Rightarrow> nat list \<Rightarrow> (nat \<times> nat) list
     \<Rightarrow> loop_state \<Rightarrow> (nat \<times> nat) list \<times> (error + loop_state)" where
  "rounds env tr p args [] out st = (out, Inr st)"
| "rounds env tr p args (kk # ks) out st =
     (let out' = out @ [(kk, length (filter id (l_continuum_mask st)))]
      in case round_body env tr p args st of
           Inl e \<Rightarrow> (out', Inl e)
         | Inr st' \<Rightarrow> rounds env tr p args ks out' st')"

definition refine ::
  "numerics \<Rightarrow> transition \<Rightarrow> prepared \<Rightarrow> fit_args \<Rightarrow> (nat \<times> nat) list \<times> (error + loop_state)" where
  "refine env tr p args = rounds env tr p args [0..<3] [] (initial_state p args)"

section \<open>fit_profile: the objective function chi_sq (lines 528 to 601)\<close>

text \<open>
  What the closure \<open>chi_sq\<close> captures from \<open>fit_profile\<close>: the parameter names, the
  constraints, the blending spectrum, the data of the window, the nominal wavelength,
  the continuum order and the coefficients left by the loop.
\<close>

record objective =
  o_parameters :: "string list"
  o_constraints :: "(real option \<times> real option) dict"
  o_blending :: "curve option"
  o_data :: spectrum
  o_wavelength :: real
  o_order :: "int option"
  o_coefficients :: "fl list"

text \<open>
  \<open>invalid_return\<close> is \<open>np.nan\<close>, \<open>invalid_full_output_return\<close> is
  \<open>(np.nan, np.nan, None)\<close>.
\<close>

definition invalid :: "bool \<Rightarrow> chi_out" where
  "invalid full = (if full then Full (Scalar None) (Scalar None) None else Plain (Scalar None))"

text \<open>
  Lines 536 and 537: \<open>0 > fwhm or not (1 > line_depth > 0) or 0 > xd.get("blending_fwhm", 1)\<close>,
  evaluated from the left.
\<close>

definition not_sensible :: "real dict \<Rightarrow> error + bool" where
  "not_sensible xd =
     and_then (dict_get xd ''fwhm'') (\<lambda>fw.
       if 0 > fw then Inr True
       else and_then (dict_get xd ''line_depth'') (\<lambda>ld.
              if \<not> (1 > ld \<and> ld > 0) then Inr True
              else Inr (0 > (case map_of xd ''blending_fwhm'' of None \<Rightarrow> 1 | Some b \<Rightarrow> b))))"

text \<open>
  Lines 542 to 546: the constraints of the caller, in the order the dictionary yields
  them. \<open>xd[parameter]\<close> is read only for a bound that is not \<open>None\<close>.
\<close>

fun violated :: "real dict \<Rightarrow> (real option \<times> real option) dict \<Rightarrow> error + bool" where
  "violated xd [] = Inr False"
| "violated xd ((parameter, (lower, upper)) # rest) =
     and_then (case lower of
                 None \<Rightarrow> Inr False
               | Some l \<Rightarrow> and_then (dict_get xd parameter) (\<lambda>v. Inr (l > v))) (\<lambda>below.
       if below then Inr True
       else and_then (case upper of
                        None \<Rightarrow> Inr False
                      | Some u \<Rightarrow> and_then (dict_get xd parameter) (\<lambda>v. Inr (u < v))) (\<lambda>above.
              if above then Inr True else violated xd rest))"

text \<open>
  The continuum of an evaluation: the fixed one unless \<open>continuum.0\<close> is a parameter.
\<close>

definition continuum_coefficients :: "objective \<Rightarrow> real dict \<Rightarrow> error + fl list" where
  "continuum_coefficients ob xd =
     (if \<not> dict_has xd ''continuum.0'' then Inr (o_coefficients ob)
      else (case o_order ob of
              None \<Rightarrow> Inl (TypeError NoneOrderPlusOne)
            | Some n \<Rightarrow> and_then (all_ok (map (dict_get xd) (continuum_keys n)))
                          (\<lambda>cs. Inr (map Some cs))))"

definition model_flux :: "numerics \<Rightarrow> objective \<Rightarrow> real dict \<Rightarrow> error + fl list \<times> fl list \<times> fl list" where
  "model_flux env ob xd =
     (let d = disp (o_data ob)
      in and_then (smoothed_blending env (o_blending ob)
                     (map_sum id Some (dict_get xd ''blending_fwhm'')) d) (\<lambda>bflux.
         and_then (dict_get xd ''line_depth'') (\<lambda>ld.
         and_then (dict_get xd ''fwhm'') (\<lambda>fw.
         and_then (continuum_coefficients ob xd) (\<lambda>cs.
           let center = (case map_of xd ''wavelength'' of
                           None \<Rightarrow> o_wavelength ob | Some v \<Rightarrow> v);
               continuum = map (\<lambda>x. polyval cs (Some x)) d
           in Inr (bflux, continuum,
                   combine bflux (absorption_profile env (Some ld) (Some center) (Some fw) d)
                     continuum))))))"

text \<open>Line 575: \<open>(model - data.flux)**2 * data.ivariance\<close>, pixel by pixel.\<close>

definition chi_sqs :: "fl list \<Rightarrow> spectrum \<Rightarrow> fl list" where
  "chi_sqs model data =
     map (\<lambda>(m, f, iv). fl_mul (fl_mul (fl_sub m f) (fl_sub m f)) iv)
         (zip model (zip (flux data) (ivariance data)))"

text \<open>
  Lines 577 to 581: the finite terms, summed unless \<open>return_scalar\<close> is false.
\<close>

definition chi_value :: "fl list \<Rightarrow> bool \<Rightarrow> chi_val" where
  "chi_value terms return_scalar =
     (let vals = filter is_finite terms
      in if return_scalar then Scalar (Some (sum_list (map the vals))) else PerPixel vals)"

definition chi_div :: "chi_val \<Rightarrow> int \<Rightarrow> chi_val" where
  "chi_div v n =
     (case v of Scalar s \<Rightarrow> Scalar (fl_div s (Some (real_of_int n)))
              | PerPixel xs \<Rightarrow> PerPixel (map (\<lambda>x. fl_div x (Some (real_of_int n))) xs))"

text \<open>
  Lines 583 to 600: the reduced value and the spectra of the full output. The
  expression \<open>blending_spectrum.disp\<close> is evaluated also when there is no blending
  spectrum, where \<open>blending_spectrum\<close> is \<open>None\<close>.
\<close>

definition full_result ::
  "objective \<Rightarrow> real dict \<Rightarrow> fl list \<Rightarrow> fl list \<Rightarrow> fl list \<Rightarrow> fl list \<Rightarrow> chi_val
     \<Rightarrow> error + chi_out" where
  "full_result ob xd terms bflux continuum model chi =
     (let r_chi = chi_div chi (int (length (filter is_finite terms)) - int (length xd) - 1)
      in and_then (continuum_coefficients ob xd) (\<lambda>cs.
           case o_blending ob of
             None \<Rightarrow> Inl (AttributeError ''disp'')
           | Some (bd, bf) \<Rightarrow>
               let bc = map (\<lambda>x. polyval cs (Some x)) bd;
                   d = disp (o_data ob)
               in Inr (Full chi r_chi (Some
                    \<lparr> data_spectrum = o_data ob,
                      continuum_spectrum = (d, continuum),
                      blending_spectrum_unsmoothed =
                        (bd, map (\<lambda>(c, f). fl_mul c f) (zip bc bf)),
                      blending_spectrum_smoothed =
                        (d, map (\<lambda>(c, b). fl_mul c b) (zip continuum bflux)),
                      fitted_spectrum = (d, model) \<rparr>))))"

definition chi_sq :: "numerics \<Rightarrow> objective \<Rightarrow> real list \<Rightarrow> bool \<Rightarrow> bool \<Rightarrow> error + chi_out" where
  "chi_sq env ob x full return_scalar =
     (let xd = dict_zip (o_parameters ob) x
      in and_then (not_sensible xd) (\<lambda>bad.
           if bad then Inr (invalid full)
           else and_then (violated xd (o_constraints ob)) (\<lambda>out_of_bounds.
             if out_of_bounds then Inr (invalid full)
             else and_then (model_flux env ob xd) (\<lambda>(bflux, continuum, model).
               let terms = chi_sqs model (o_data ob);
                   chi = chi_value terms return_scalar
               in if full then full_result ob xd terms bflux continuum model chi
                  else Inr (Plain chi)))))"

text \<open>The objective as the optimiser calls it: \<open>chi_sq(x)\<close> with the defaults.\<close>

definition minimisation_function :: "numerics \<Rightarrow> objective \<Rightarrow> real list \<Rightarrow> error + fl" where
  "minimisation_function env ob x =
     and_then (chi_sq env ob x False True) (\<lambda>out.
       case out of Plain (Scalar v) \<Rightarrow> Inr v
                 | _ \<Rightarrow> Inl (ExternalError ''objective is not a scalar''))"

section \<open>fit_profile: the optimisation and the results (lines 526 to 686)\<close>

text \<open>What \<open>fit_profile\<close> returns: the optimal parameters, or the tuple of the full output.\<close>

datatype fit_return =
    Theta "real dict"
  | FullOutput "real dict" chi_val chi_val op_info

text \<open>\<open>profile_integrals\<close>, line 643: only the Gaussian has an entry.\<close>

definition profile_integral :: "string \<Rightarrow> real dict \<Rightarrow> error + real" where
  "profile_integral k x =
     (if k = ''gaussian''
      then and_then (dict_get x ''line_depth'') (\<lambda>ld.
           and_then (dict_get x ''fwhm'') (\<lambda>fw.
             Inr (ld * \<bar>fw\<bar> * (752634332 / 1000000000))))
      else Inl (KeyError k))"

definition make_objective :: "transition \<Rightarrow> prepared \<Rightarrow> loop_state \<Rightarrow> objective" where
  "make_objective tr p st =
     \<lparr> o_parameters = p_parameters p, o_constraints = c_constraints (p_args p),
       o_blending = p_blending p, o_data = p_data p, o_wavelength = wavelength tr,
       o_order = c_order (p_args p), o_coefficients = l_coefficients st \<rparr>"

text \<open>Lines 606 to 608: the start vector, which must be finite.\<close>

definition start_vector :: "string list \<Rightarrow> fl dict \<Rightarrow> error + real list" where
  "start_vector parameters th =
     and_then (all_ok (map (dict_get th) parameters)) (\<lambda>p0.
       if list_ex (\<lambda>v. \<not> is_finite v) p0 then Inl (ValueError NonFiniteInitial)
       else Inr (map the p0))"

definition op_kwargs :: "fl dict option \<Rightarrow> fl dict" where
  "op_kwargs okw =
     (let k0 = (case okw of None \<Rightarrow> [] | Some d \<Rightarrow> d);
          k1 = dict_set k0 ''full_output'' (Some 1);
          k2 = dict_set k1 ''xtol'' (Some (1 / 100000));
          k3 = dict_set k2 ''ftol'' (Some (1 / 100000))
      in dict_setdefault k3 ''disp'' (Some 0))"

text \<open>
  The state of a call when it ends: what it returned or raised, the transition
  object with the attributes written so far, and the pairs printed by the loop.
\<close>

record outcome =
  returned :: "error + fit_return"
  transition_after :: transition
  printed :: "(nat \<times> nat) list"

text \<open>
  Lines 636 to 686, after \<open>fmin\<close> has returned. \<open>self.equivalent_width\<close> is assigned
  at line 647, before \<open>op_info.update(op_spectra)\<close> at line 659 can raise.
\<close>

definition collect ::
  "numerics \<Rightarrow> transition \<Rightarrow> prepared \<Rightarrow> fit_args \<Rightarrow> objective \<Rightarrow> fl dict
     \<Rightarrow> real list \<times> fl \<times> nat \<times> nat \<times> nat \<Rightarrow> (error + fit_return) \<times> transition" where
  "collect env tr p args ob th res =
     (case res of (p1, fopt, num_iter, num_funcalls, warnflag) \<Rightarrow>
        let optimal_theta = dict_zip (p_parameters p) p1
        in case chi_sq env ob p1 True True of
             Inl e \<Rightarrow> (Inl e, tr)
           | Inr (Plain _) \<Rightarrow> (Inl (ExternalError ''not a tuple''), tr)
           | Inr (Full oc orc op_spectra) \<Rightarrow>
               (case profile_integral (c_kind (p_args p)) optimal_theta of
                  Inl e \<Rightarrow> (Inl e, tr)
                | Inr integral \<Rightarrow>
                    let ew = 1000 * integral;
                        tr1 = tr\<lparr>equivalent_width := Some ew\<rparr>
                    in case op_spectra of
                         None \<Rightarrow> (Inl (TypeError UpdateWithNone), tr1)
                       | Some spectra \<Rightarrow>
                           let info = \<lparr> info_p0 = th, info_chi_sq = oc, info_r_chi_sq = orc,
                                         info_fopt = fopt, info_num_iter = num_iter,
                                         info_num_funcalls = num_funcalls,
                                         info_warnflag = warnflag,
                                         info_profile_kind = c_kind (p_args p),
                                         info_equivalent_width = ew,
                                         info_spectra = spectra \<rparr>;
                               tr2 = tr1\<lparr>profile := Some (optimal_theta, info)\<rparr>
                           in (if full_output args
                               then Inr (FullOutput optimal_theta oc orc info)
                               else Inr (Theta optimal_theta), tr2)))"

text \<open>
  Lines 526 to 634: the assertion that every parameter has a value, the check of the
  start vector, the first evaluation of the objective (with \<open>full_output=True\<close>), and
  the call of \<open>fmin\<close>.
\<close>

definition optimise ::
  "numerics \<Rightarrow> transition \<Rightarrow> prepared \<Rightarrow> fit_args \<Rightarrow> loop_state
     \<Rightarrow> (error + fit_return) \<times> transition" where
  "optimise env tr p args st =
     (let th = l_theta st; ob = make_objective tr p st
      in if list_ex (\<lambda>q. \<not> dict_has th q) (p_parameters p) then (Inl AssertionError, tr)
         else case start_vector (p_parameters p) th of
                Inl e \<Rightarrow> (Inl e, tr)
              | Inr p0 \<Rightarrow>
                  (case chi_sq env ob p0 True True of
                     Inl e \<Rightarrow> (Inl e, tr)
                   | Inr (Plain _) \<Rightarrow> (Inl (ExternalError ''not a tuple''), tr)
                   | Inr (Full ic irc imf) \<Rightarrow>
                       if (case ic of Scalar v \<Rightarrow> \<not> is_finite v | PerPixel _ \<Rightarrow> False)
                       then (Inl (ValueError InvalidSeed), tr)
                       else (case fmin env (minimisation_function env ob) p0
                                    (op_kwargs (optimise_kwargs args)) of
                               Inl e \<Rightarrow> (Inl e, tr)
                             | Inr res \<Rightarrow> collect env tr p args ob th res)))"

section \<open>fit_profile\<close>

definition fit_profile :: "numerics \<Rightarrow> transition \<Rightarrow> spectrum \<Rightarrow> fit_args \<Rightarrow> outcome" where
  "fit_profile env tr data args =
     (case prepare env tr data args of
        Inl e \<Rightarrow> \<lparr> returned = Inl e, transition_after = tr, printed = [] \<rparr>
      | Inr p \<Rightarrow>
          (case refine env tr p args of
             (out, Inl e) \<Rightarrow> \<lparr> returned = Inl e, transition_after = tr, printed = out \<rparr>
           | (out, Inr st) \<Rightarrow>
               (case optimise env tr p args st of
                  (r, tr') \<Rightarrow> \<lparr> returned = r, transition_after = tr', printed = out \<rparr>)))"

section \<open>ProfileFitter.fit: the checks on entry (solvers/profiles.py, lines 58 to 74)\<close>

text \<open>
  The second fitter starts with the same test on the pixels with finite flux. Before
  it, a mask given by the caller is appended to \<open>kwds["global_mask"]\<close>; the defaults
  have no such key, so this raises \<open>KeyError\<close> unless the keyword arguments supply one
  (\<open>has_global_mask\<close>). What follows line 74 is not modelled.
\<close>

definition fitter_entry ::
  "spectrum \<Rightarrow> real \<Rightarrow> (real \<times> real) list option \<Rightarrow> bool \<Rightarrow> error + unit" where
  "fitter_entry spectrum w caller_mask has_global_mask =
     (if caller_mask \<noteq> None \<and> \<not> has_global_mask then Inl (KeyError ''global_mask'')
      else and_then (bool_index (map is_finite (flux spectrum)) (disp spectrum)) (\<lambda>df.
           and_then (py_index df (-1)) (\<lambda>hi.
             if hi > w
             then and_then (py_index df 0) (\<lambda>lo.
                    if w > lo then Inr () else Inl (ValueError OutsideFiniteRange))
             else Inl (ValueError OutsideFiniteRange))))"

section \<open>A concrete instance for running the model\<close>

text \<open>
  A small instance of the routines the model takes as parameters, with which runs of
  \<open>fit_profile\<close> can be evaluated: \<open>slice\<close> keeps the pixels of the window (as the
  specification describes \<open>slice(\<lambda>_min, \<lambda>_max)\<close>), there is no masking, the synthesiser returns a flat spectrum of three points over the window, the
  profile is a bell of rational shape with height 1 at the centre, \<open>polyfit\<close> returns
  the constant polynomial through the first flux value, the spread of a sample is its
  mean absolute deviation, the filter leaves a flat
  spectrum as it is, resampling takes the first flux value, and the optimiser evaluates
  the objective at the start vector and stops there, reporting with \<open>warnflag = 2\<close>
  that it ran out of iterations.
\<close>

definition window :: "real \<times> real \<Rightarrow> spectrum \<Rightarrow> spectrum" where
  "window region s =
     (let keep = map (\<lambda>x. fst region \<le> x \<and> x \<le> snd region) (disp s)
      in \<lparr> disp = select keep (disp s), flux = select keep (flux s),
            ivariance = select keep (ivariance s) \<rparr>)"

definition bell :: "fl \<Rightarrow> fl \<Rightarrow> real \<Rightarrow> fl" where
  "bell mu sigma x =
     (case (mu, sigma) of
        (Some m, Some s) \<Rightarrow> if s = 0 then None else Some (1 / (1 + ((x - m) / s)\<^sup>2))
      | _ \<Rightarrow> None)"

definition mean_deviation :: "fl list \<Rightarrow> fl" where
  "mean_deviation a =
     (if a = [] \<or> None \<in> set a then None
      else (let xs = map the a; n = real (length xs); m = sum_list xs / n
            in Some (sum_list (map (\<lambda>x. \<bar>x - m\<bar>) xs) / n)))"

definition stop_at_start ::
  "(real list \<Rightarrow> error + fl) \<Rightarrow> real list \<Rightarrow> fl dict
     \<Rightarrow> error + (real list \<times> fl \<times> nat \<times> nat \<times> nat)" where
  "stop_at_start f x0 kw = and_then (f x0) (\<lambda>v. Inr (x0, v, 0, 1, 2))"

definition simple_numerics :: numerics where
  "simple_numerics =
     \<lparr> slice = (\<lambda>region s. Inr (window region s)),
       mask_by_dispersion = (\<lambda>m s. Inr s),
       synthesise = (\<lambda>stellar lines lo hi kw.
                       Inr ([lo, (lo + hi) / 2, hi], [Some 1, Some 1, Some 1])),
       gaussian = bell,
       polyfit = (\<lambda>xs ys n. case ys of [] \<Rightarrow> Inl (ExternalError ''polyfit'')
                                    | y # _ \<Rightarrow> Inr (replicate (nat n) (Some 0) @ [y])),
       std = mean_deviation,
       gaussian_filter = (\<lambda>f s. f),
       interp = (\<lambda>x xp fp. case fp of [] \<Rightarrow> None | y # _ \<Rightarrow> y),
       fmin = stop_at_start \<rparr>"

text \<open>
  An absorption line at 15 in a spectrum of seven pixels from 10 to 20, with unit
  inverse variance; the transition has one blending transition, and the caller
  supplies the four stellar parameters.
\<close>

definition line_data :: spectrum where
  "line_data =
     \<lparr> disp = [10, 12, 14, 15, 16, 18, 20],
       flux = [Some 1, Some 1, Some (4 / 5), Some (1 / 2), Some (4 / 5), Some 1, Some 1],
       ivariance = [Some 1, Some 1, Some 1, Some 1, Some 1, Some 1, Some 1] \<rparr>"

definition blended_line :: transition where
  "blended_line =
     \<lparr> wavelength = 15, blending_transitions = Some [[31 / 2, 26, 3, -2]],
       mask_intervals = None, continuum_regions = [],
       equivalent_width = None, profile = None \<rparr>"

definition stellar_theta :: "fl dict" where
  "stellar_theta =
     [(''effective_temperature'', Some 5777), (''surface_gravity'', Some (444 / 100)),
      (''metallicity'', Some 0), (''microturbulence'', Some 1)]"

definition default_args :: fit_args where
  "default_args =
     \<lparr> initial_theta = Some stellar_theta, kind = ''gaussian'', continuum_order = None,
       surrounding = 2, detect_nearby_lines = True, constrain_parameters = None,
       synthesise_kwargs = None, optimise_kwargs = None, full_output = False,
       kwargs = [] \<rparr>"

section \<open>Notions used to state the properties\<close>







text \<open>Calls used as examples below.\<close>

definition voigt_outside_call :: outcome where
  "voigt_outside_call =
     fit_profile simple_numerics (blended_line\<lparr>wavelength := 25\<rparr>) line_data
       (default_args\<lparr>kind := ''voigt''\<rparr>)"



definition far_region_call :: outcome where
  "far_region_call =
     fit_profile simple_numerics (blended_line\<lparr>continuum_regions := [(1, 2)]\<rparr>) line_data
       default_args"






section \<open>Facts about the periodic table\<close>

lemma periodic_table_eq:
  "periodic_table =
     [''H'', ''He'', ''Li'', ''Be'', ''B'', ''C'', ''N'', ''O'', ''F'', ''Ne'',
      ''Na'', ''Mg'', ''Al'', ''Si'', ''P'', ''S'', ''Cl'', ''Ar'',
      ''K'', ''Ca'', ''Sc'', ''Ti'', ''V'', ''Cr'', ''Mn'', ''Fe'', ''Co'', ''Ni'', ''Cu'',
      ''Zn'', ''Ga'', ''Ge'', ''As'', ''Se'', ''Br'', ''Kr'',
      ''Rb'', ''Sr'', ''Y'', ''Zr'', ''Nb'', ''Mo'', ''Tc'', ''Ru'', ''Rh'', ''Pd'', ''Ag'',
      ''Cd'', ''In'', ''Sn'', ''Sb'', ''Te'', ''I'', ''Xe'',
      ''Cs'', ''Ba'', ''La'', ''Ce'', ''Pr'', ''Nd'', ''Pm'', ''Sm'', ''Eu'', ''Gd'', ''Tb'',
      ''Dy'', ''Ho'', ''Er'', ''Tm'', ''Yb'',
      ''Lu'', ''Hf'', ''Ta'', ''W'', ''Re'', ''Os'', ''Ir'', ''Pt'', ''Au'', ''Hg'', ''Tl'',
      ''Pb'', ''Bi'', ''Po'', ''At'', ''Rn'',
      ''Fr'', ''Ra'', ''Ac'', ''Th'', ''Pa'', ''U'', ''Np'', ''Pu'', ''Am'', ''Cm'', ''Bk'',
      ''Cf'', ''Es'', ''Fm'', ''Md'', ''No'',
      ''Lr'', ''Rf'', ''Db'', ''Sg'', ''Bh'', ''Hs'', ''Mt'', ''Ds'', ''Rg'', ''Cn'', ''UUt'']"
  by code_simp

lemma in_table_no_space: "s \<in> set periodic_table \<Longrightarrow> CHR '' '' \<notin> set s"
  unfolding periodic_table_eq by auto

section \<open>The species parser: what the code does\<close>

text \<open>
  A string that is not itself an entry of the table never parses: \<open>atomic_number\<close>
  returns the \<open>ValueError\<close> instead of raising it, and \<open>element\<close> then fails on
  \<open>int\<close> of that value.
\<close>

lemma parse_species_not_in_table:
  "s \<notin> set periodic_table \<Longrightarrow> parse_species (SpStr s) = Inl (TypeError IntOfException)"
  by (simp add: parse_species_def atomic_number_def element_of_value_def)

text \<open>
  The whole string is looked up, not its first token, and no entry of the table
  contains a space: a string with an ionisation token is never found.
\<close>

lemma parse_species_with_space:
  "CHR '' '' \<in> set s \<Longrightarrow> parse_species (SpStr s) = Inl (TypeError IntOfException)"
  using in_table_no_space [of s] parse_species_not_in_table [of s] by blast

text \<open>
  So a string species that parses is a bare element symbol, and its ionisation level is 1.
\<close>

lemma parse_species_string_level:
  "parse_species (SpStr s) = Inr (Some (el, z, ion, code)) \<Longrightarrow> ion = 1 \<and> s \<in> set periodic_table"
proof -
  assume ok: "parse_species (SpStr s) = Inr (Some (el, z, ion, code))"
  have "s \<in> set periodic_table"
    using ok parse_species_not_in_table [of s] by auto
  moreover from this have "CHR '' '' \<notin> set s"
    by (rule in_table_no_space)
  ultimately show ?thesis
    using ok
    by (auto simp: parse_species_def atomic_number_def element_of_value_def
             split: sum.splits)
qed

lemma parse_species_Fe:
  "parse_species (SpStr ''Fe'') = Inr (Some (''Fe'', 26, 1, 261 / 10))"
  by (simp add: parse_species_def atomic_number_def element_of_value_def periodic_table_eq
        element_of_int_def py_index_def)

lemma parse_species_Ca:
  "parse_species (SpStr ''Ca'') = Inr (Some (''Ca'', 20, 1, 201 / 10))"
  by (simp add: parse_species_def atomic_number_def element_of_value_def periodic_table_eq
        element_of_int_def py_index_def)

lemma parse_species_26_0:
  "parse_species (SpFloat 26) = Inr (Some (''Fe'', 26, 1, 26))"
  by (simp add: parse_species_def element_of_float_def periodic_table_eq element_of_int_def
        py_index_def py_int_def)

lemma parse_species_26_1:
  "parse_species (SpFloat (261 / 10)) = Inr (Some (''Fe'', 26, 2, 261 / 10))"
  by (simp add: parse_species_def element_of_float_def periodic_table_eq element_of_int_def
        py_index_def py_int_def)

lemma parse_species_20_0:
  "parse_species (SpFloat 20) = Inr (Some (''Ca'', 20, 1, 20))"
  by (simp add: parse_species_def element_of_float_def periodic_table_eq element_of_int_def
        py_index_def py_int_def)

lemma index_of_bounds: "x \<in> set xs \<Longrightarrow> 0 \<le> index_of x xs \<and> index_of x xs < int (length xs)"
  by (induction xs) auto

lemma index_of_nth: "x \<in> set xs \<Longrightarrow> xs ! nat (index_of x xs) = x"
proof (induction xs)
  case Nil
  then show ?case by simp
next
  case (Cons y ys)
  show ?case
  proof (cases "x = y")
    case True
    then show ?thesis by simp
  next
    case False
    with Cons have "x \<in> set ys" and ih: "ys ! nat (index_of x ys) = x"
      by auto
    have "0 \<le> index_of x ys"
      using index_of_bounds [OF \<open>x \<in> set ys\<close>] by simp
    then have "nat (1 + index_of x ys) = Suc (nat (index_of x ys))"
      by simp
    then show ?thesis
      using False ih by simp
  qed
qed

text \<open>
  A bare element symbol of the table parses to the same element, atomic number and
  ionisation level (1) as the numeric code of its atomic number.
\<close>

lemma bare_symbol_agrees_with_code:
  assumes "s \<in> set periodic_table"
  shows "\<exists>z. parse_species (SpStr s) = Inr (Some (s, z, 1, real_of_int z + 1 / 10))
           \<and> parse_species (SpFloat (real_of_int z)) = Inr (Some (s, z, 1, real_of_int z))"
proof -
  define z where "z = index_of s periodic_table + 1"
  have b: "0 \<le> index_of s periodic_table" "index_of s periodic_table < int (length periodic_table)"
    using index_of_bounds [OF assms] by simp_all
  have el: "element_of_int z = Inr s"
    using b index_of_nth [OF assms] by (simp add: element_of_int_def py_index_def z_def)
  have nospace: "CHR '' '' \<notin> set s"
    using assms by (rule in_table_no_space)
  have "parse_species (SpStr s) = Inr (Some (s, z, 1, real_of_int z + 1 / 10))"
    using assms el nospace
    by (simp add: parse_species_def atomic_number_def element_of_value_def z_def [symmetric])
  moreover have "py_int (real_of_int z) = z"
    by (simp add: py_int_def)
  then have "parse_species (SpFloat (real_of_int z)) = Inr (Some (s, z, 1, real_of_int z))"
    using el by (simp add: parse_species_def element_of_float_def py_int_def)
  ultimately show ?thesis
    by blast
qed

text \<open>
  The ionisation level of a numeric code is decoded with \<open>int\<close>, which truncates. The
  double nearest to 26.2 is \<open>26 + 56294995342131 / 2 ^ 48\<close>, just below 26.2; the
  subtraction and the product with 10 are exact on it, and the level comes out as 2.
\<close>

lemma parse_species_double_26_2:
  "parse_species (SpFloat (26 + 56294995342131 / 2 ^ 48)) =
     Inr (Some (''Fe'', 26, 2, 26 + 56294995342131 / 2 ^ 48))"
  by (simp add: parse_species_def element_of_float_def periodic_table_eq element_of_int_def
        py_index_def py_int_def)

text \<open>
  Claim C2 (species strings and numeric codes parse to the same element, atomic number
  and ionisation level; "Fe I" agrees with 26.0). On the code the string "Fe I" does
  not parse at all: the call ends in the \<open>TypeError\<close> of \<open>int\<close> applied to the
  exception value that \<open>atomic_number\<close> returned, while 26.0 parses to Fe, 26, level 1.
\<close>

theorem parse_species_Fe_I_fails:
  "parse_species (SpStr ''Fe I'') = Inl (TypeError IntOfException)
   \<and> parse_species (SpStr ''Fe II'') = Inl (TypeError IntOfException)
   \<and> map_sum id (map_option identity_of) (parse_species (SpFloat 26))
       = Inr (Some (''Fe'', 26, 1))"
  by (simp add: parse_species_with_space parse_species_26_0 identity_of_def)

text \<open>
  Claim C6 (a string whose element symbol is not in the table fails with the
  unknown-element error). On the code the unknown-element \<open>ValueError\<close> is built and
  returned as a value by \<open>atomic_number\<close>; what the caller of the parser receives is
  the \<open>TypeError\<close> raised afterwards by \<open>int\<close>.
\<close>

theorem parse_species_unknown_symbol_type_error:
  "atomic_number ''Xx'' = PyException (ValueError UnknownElement)
   \<and> parse_species (SpStr ''Xx'') = Inl (TypeError IntOfException)
   \<and> parse_species (SpStr ''Xx'') \<noteq> Inl (ValueError UnknownElement)"
  by (simp add: parse_species_def atomic_number_def element_of_value_def periodic_table_eq)

section \<open>The argument checks of fit_profile\<close>

lemma and_then_InrE:
  assumes "and_then m f = Inr y"
  obtains x where "m = Inr x" and "f x = Inr y"
  using assms by (cases m) (auto simp: and_then_def)

lemma py_index_last: "d \<noteq> [] \<Longrightarrow> py_index d (-1) = Inr (last d)"
  by (cases d rule: rev_cases) (auto simp: py_index_def nat_diff_distrib' nth_append)

lemma py_index_first: "d \<noteq> [] \<Longrightarrow> py_index d 0 = Inr (hd d)"
  by (cases d) (auto simp: py_index_def)

lemma py_index_empty: "py_index [] i = Inl IndexError"
  by (simp add: py_index_def)

lemma check_bounds_eq:
  "check_bounds d w =
     (if d = [] then Inl IndexError
      else if last d > w \<and> w > hd d then Inr ()
      else Inl (ValueError OutOfBounds))"
  by (simp add: check_bounds_def and_then_def py_index_empty py_index_last py_index_first)

lemma prepare_bounds_error:
  "check_bounds (disp data) (wavelength tr) = Inl e \<Longrightarrow> prepare env tr data args = Inl e"
  by (simp add: prepare_def check_arguments_def and_then_def)

text \<open>
  Claim C7: when the nominal wavelength of the transition is not strictly inside the
  dispersion bounds of the spectrum, \<open>fit_profile\<close> fails with the out-of-bounds
  \<open>ValueError\<close> of line 217, before anything else is looked at; nothing is printed and
  the transition is left as it was. A spectrum without any pixel has no bounds, and
  the check itself fails with \<open>IndexError\<close> on \<open>disp[-1]\<close>.
\<close>

theorem fit_profile_out_of_bounds:
  assumes "\<not> (disp data \<noteq> [] \<and> last (disp data) > wavelength tr
              \<and> wavelength tr > hd (disp data))"
  shows "fit_profile env tr data args =
           \<lparr> returned = Inl (if disp data = [] then IndexError else ValueError OutOfBounds),
             transition_after = tr, printed = [] \<rparr>"
proof -
  have "check_bounds (disp data) (wavelength tr) =
          Inl (if disp data = [] then IndexError else ValueError OutOfBounds)"
    using assms by (auto simp: check_bounds_eq)
  then have "prepare env tr data args =
          Inl (if disp data = [] then IndexError else ValueError OutOfBounds)"
    by (rule prepare_bounds_error)
  then show ?thesis
    by (simp add: fit_profile_def)
qed

theorem fit_profile_out_of_bounds_witness:
  "\<not> (disp line_data \<noteq> [] \<and> last (disp line_data) > wavelength (blended_line\<lparr>wavelength := 25\<rparr>)
        \<and> wavelength (blended_line\<lparr>wavelength := 25\<rparr>) > hd (disp line_data))
   \<and> fit_profile simple_numerics (blended_line\<lparr>wavelength := 25\<rparr>) line_data default_args =
       \<lparr> returned = Inl (ValueError OutOfBounds),
         transition_after = blended_line\<lparr>wavelength := 25\<rparr>, printed = [] \<rparr>"
proof -
  have h: "\<not> (disp line_data \<noteq> [] \<and> last (disp line_data) > wavelength (blended_line\<lparr>wavelength := 25\<rparr>)
                \<and> wavelength (blended_line\<lparr>wavelength := 25\<rparr>) > hd (disp line_data))"
    by (simp add: line_data_def)
  have "disp line_data \<noteq> []"
    by (simp add: line_data_def)
  then show ?thesis
    using h fit_profile_out_of_bounds [OF h, of simple_numerics default_args] by simp
qed

text \<open>
  The same check in \<open>ProfileFitter.fit\<close> (solvers/profiles.py, lines 70 to 74) is made
  on the pixels with finite flux: for an increasing dispersion array, a wavelength that
  is not strictly inside the bounds of the spectrum is not strictly inside the bounds
  of its finite pixels either, and the entry of that fitter fails as well.
\<close>

lemma select_subset: "set (select m a) \<subseteq> set a"
  by (auto simp: select_def dest: set_zip_rightD)

lemma sorted_hd_last:
  "sorted d \<Longrightarrow> x \<in> set d \<Longrightarrow> hd d \<le> x \<and> x \<le> (last d :: real)"
proof (induction d)
  case Nil
  then show ?case by simp
next
  case (Cons y d)
  then show ?case
    by (cases "d = []") auto
qed

lemma fitter_entry_out_of_bounds:
  assumes "sorted (disp s)" and "length (flux s) = length (disp s)"
    and "\<not> (disp s \<noteq> [] \<and> last (disp s) > w \<and> w > hd (disp s))"
  shows "fitter_entry s w cm g = Inl (KeyError ''global_mask'')
       \<or> fitter_entry s w cm g = Inl IndexError
       \<or> fitter_entry s w cm g = Inl (ValueError OutsideFiniteRange)"
proof -
  define df where "df = select (map is_finite (flux s)) (disp s)"
  have ix: "bool_index (map is_finite (flux s)) (disp s) = Inr df"
    using assms(2) by (simp add: bool_index_def df_def)
  have "\<not> (last df > w \<and> w > hd df)" if "df \<noteq> []"
  proof -
    from that have "hd df \<in> set (disp s)" and "last df \<in> set (disp s)"
      using select_subset [of "map is_finite (flux s)" "disp s"] unfolding df_def by auto
    then have "hd (disp s) \<le> hd df" and "last df \<le> last (disp s)" and "disp s \<noteq> []"
      using sorted_hd_last [OF assms(1)] by auto
    then show ?thesis
      using assms(3) by auto
  qed
  then show ?thesis
    unfolding fitter_entry_def ix
    by (cases "df = []")
       (auto simp: and_then_def py_index_empty py_index_last py_index_first)
qed

lemma check_kind_unimplemented:
  "py_lower k = ''voigt'' \<or> py_lower k = ''lorentzian'' \<Longrightarrow> check_kind k = Inl NotImplementedError"
  by (auto simp: check_kind_def Let_def)

lemma check_kind_gaussian: "check_kind k = Inr k' \<Longrightarrow> k' = ''gaussian''"
  by (auto simp: check_kind_def Let_def split: if_splits)

text \<open>
  Claim C8, as the code has it: a call with \<open>kind\<close> "voigt" or "lorentzian" (in any
  letter case) never returns a fit. It fails with \<open>NotImplementedError\<close> when the
  wavelength is strictly inside the dispersion bounds; the bounds check of line 216
  comes first, so outside the bounds the error is the out-of-bounds \<open>ValueError\<close>.
\<close>

theorem fit_profile_unimplemented_kind:
  assumes "py_lower (kind args) = ''voigt'' \<or> py_lower (kind args) = ''lorentzian''"
  shows "fit_profile env tr data args =
           \<lparr> returned = Inl (if disp data = [] then IndexError
                             else if last (disp data) > wavelength tr
                                     \<and> wavelength tr > hd (disp data)
                                  then NotImplementedError
                                  else ValueError OutOfBounds),
             transition_after = tr, printed = [] \<rparr>"
proof -
  have "prepare env tr data args =
          Inl (if disp data = [] then IndexError
               else if last (disp data) > wavelength tr \<and> wavelength tr > hd (disp data)
                    then NotImplementedError
                    else ValueError OutOfBounds)"
    using check_kind_unimplemented [OF assms]
    by (simp add: prepare_def check_arguments_def and_then_def check_bounds_eq)
  then show ?thesis
    by (simp add: fit_profile_def)
qed

theorem fit_profile_unimplemented_kind_witness:
  "(py_lower (kind (default_args\<lparr>kind := ''Voigt''\<rparr>)) = ''voigt''
      \<or> py_lower (kind (default_args\<lparr>kind := ''Voigt''\<rparr>)) = ''lorentzian'')
   \<and> fit_profile simple_numerics blended_line line_data (default_args\<lparr>kind := ''Voigt''\<rparr>) =
       \<lparr> returned = Inl NotImplementedError, transition_after = blended_line, printed = [] \<rparr>"
proof -
  have h: "py_lower (kind (default_args\<lparr>kind := ''Voigt''\<rparr>)) = ''voigt''
             \<or> py_lower (kind (default_args\<lparr>kind := ''Voigt''\<rparr>)) = ''lorentzian''"
    by code_simp
  show ?thesis
    using h fit_profile_unimplemented_kind [OF h, of simple_numerics blended_line line_data]
    by (simp add: line_data_def blended_line_def)
qed

text \<open>
  The claim as stated (every such call fails with the not-implemented error) does not
  hold: with \<open>kind = "voigt"\<close> and the wavelength 25 outside the spectrum from 10 to 20,
  the call fails with the out-of-bounds \<open>ValueError\<close>.
\<close>

theorem voigt_outside_bounds_value_error:
  "returned voigt_outside_call = Inl (ValueError OutOfBounds)
   \<and> returned voigt_outside_call \<noteq> Inl NotImplementedError"
  unfolding voigt_outside_call_def by code_simp

text \<open>
  The check of the continuum regions looks at the first region only, and
  \<open>overlap\<close> compares the end of the data with the start of the region.
\<close>

lemma check_continuum_regions_eq:
  "d \<noteq> [] \<Longrightarrow> check_continuum_regions rs d =
     (case rs of [] \<Rightarrow> Inr ()
      | (start, stop) # rest \<Rightarrow>
          if last d \<ge> hd d \<and> last d \<ge> start then Inr () else Inl (ValueError NoOverlap))"
  by (cases rs) (auto simp: check_continuum_regions_def regions_size_def and_then_def
      py_index_last py_index_first overlap_def)

text \<open>
  Claim C5 (no continuum region overlaps the data window: the call fails with the
  no-overlap error). On the code a region that lies entirely below the window passes
  the check: the region from 1 to 2 and the data from 10 to 20 count as overlapping,
  and the call goes on to return a fit.
\<close>

theorem region_below_window_accepted:
  "overlap 1 2 10 20
   \<and> check_continuum_regions [(1, 2)] (disp line_data) = Inr ()
   \<and> returned far_region_call =
       Inr (Theta [(''line_depth'', 1 / 2), (''fwhm'', 2), (''blending_fwhm'', 2)])"
  unfolding far_region_call_def by code_simp


section \<open>What a successful preparation fixes\<close>

lemma check_arguments_InrD:
  assumes "check_arguments tr data args = Inr c"
  shows "c_kind c = ''gaussian''" and "c_order c = continuum_order args"
    and "c_constraints c = lower_keys (constrain_parameters args)"
    and "check_bounds (disp data) (wavelength tr) = Inr ()"
proof -
  from assms obtain u k order v s where
    b: "check_bounds (disp data) (wavelength tr) = Inr u" and
    k: "check_kind (kind args) = Inr k" and
    o: "check_continuum_order (continuum_order args) = Inr order" and
    r: "check_continuum_regions (continuum_regions tr) (disp data) = Inr v" and
    s: "check_surrounding (surrounding args) = Inr s" and
    c: "c = \<lparr> c_kind = k, c_order = order, c_surrounding = s,
               c_constraints = lower_keys (constrain_parameters args),
               c_initial_theta = (case initial_theta args of None \<Rightarrow> [] | Some t \<Rightarrow> t) \<rparr>"
    unfolding check_arguments_def by (elim and_then_InrE) auto
  show "c_kind c = ''gaussian''"
    using check_kind_gaussian [OF k] c by simp
  show "c_order c = continuum_order args"
    using o c by (auto simp: check_continuum_order_def split: option.splits if_splits)
  show "c_constraints c = lower_keys (constrain_parameters args)"
    using c by simp
  show "check_bounds (disp data) (wavelength tr) = Inr ()"
    using b by simp
qed

lemma prepare_InrD:
  assumes "prepare env tr data args = Inr p"
  shows "check_arguments tr data args = Inr (p_args p)"
    and "establish_parameters tr (p_args p) = Inr (p_parameters p)"
proof -
  from assms obtain c parameters where
    c: "check_arguments tr data args = Inr c" and
    e: "establish_parameters tr c = Inr parameters" and
    rest: "(let region = (wavelength tr - c_surrounding c, wavelength tr + c_surrounding c)
            in and_then (slice env region data) (\<lambda>data1.
               and_then (case mask_intervals tr of
                           None \<Rightarrow> Inr data1
                         | Some m \<Rightarrow> mask_by_dispersion env m data1) (\<lambda>data'.
               and_then (make_blending_spectrum env tr (c_initial_theta c)
                           (synthesise_kwargs args) parameters data' region) (\<lambda>bs.
                 Inr \<lparr> p_args = c, p_parameters = parameters, p_data = data',
                       p_finite = map is_finite (flux data'),
                       p_missing = filter (\<lambda>q. \<not> dict_has (c_initial_theta c) q) parameters,
                       p_theta = seed_theta (wavelength tr) parameters (c_initial_theta c),
                       p_blending = bs \<rparr>)))) = Inr p"
    unfolding prepare_def by (elim and_then_InrE)
  from rest have "p_args p = c \<and> p_parameters p = parameters"
    unfolding Let_def by (elim and_then_InrE) auto
  then show "check_arguments tr data args = Inr (p_args p)"
    and "establish_parameters tr (p_args p) = Inr (p_parameters p)"
    using c e by simp_all
qed

text \<open>The parameter list of a Gaussian fit, part by part.\<close>

lemma establish_parameters_gaussian:
  assumes "establish_parameters tr c = Inr ps" and "c_kind c = ''gaussian''"
  shows "ps = [''line_depth'', ''fwhm'']
              @ (if dict_has (c_constraints c) ''wavelength'' then [''wavelength''] else [])
              @ (case c_order c of
                   None \<Rightarrow> []
                 | Some n \<Rightarrow> if 2 > regions_size (continuum_regions tr)
                             then continuum_keys n else [])
              @ (if has_blending tr then [''blending_fwhm''] else [])"
  using assms
  by (auto simp: establish_parameters_def profile_parameters_def dict_get_def and_then_def
        Let_def split: if_splits)

lemma continuum_key_head: "hd (continuum_key i) = CHR ''c''"
  by (simp add: continuum_key_def)

lemma no_continuum_keys_without_order:
  assumes "establish_parameters tr c = Inr ps" and "c_kind c = ''gaussian''"
    and "c_order c = None"
  shows "continuum_key i \<notin> set ps"
proof
  assume "continuum_key i \<in> set ps"
  then have "continuum_key i \<in> {''line_depth'', ''fwhm'', ''wavelength'', ''blending_fwhm''}"
    using establish_parameters_gaussian [OF assms(1,2)] assms(3)
    by (auto split: if_splits)
  then have "hd (continuum_key i) \<noteq> CHR ''c''"
    by auto
  then show False
    by (simp add: continuum_key_head)
qed

section \<open>Dictionaries built from a list of names\<close>

lemma dict_set_keys: "fst ` set (dict_set d k v) = insert k (fst ` set d)"
  by (induction d) (force split: if_splits)+

lemma dict_update_keys:
  "fst ` set (dict_update d kvs) = fst ` set d \<union> fst ` set kvs"
proof (induction kvs rule: rev_induct)
  case Nil
  then show ?case by (simp add: dict_update_def)
next
  case (snoc kv kvs)
  then have "fst ` set (foldl (\<lambda>acc (k, v). dict_set acc k v) d kvs)
               = fst ` set d \<union> fst ` set kvs"
    by (simp add: dict_update_def)
  then show ?case
    by (cases kv) (auto simp: dict_update_def dict_set_keys)
qed

lemma dict_zip_keys: "fst ` set (dict_zip ks vs) = set (take (length vs) ks)"
proof -
  have "map fst (zip ks vs) = take (length vs) ks"
    by (simp add: map_fst_zip_take min_def)
  then have "fst ` set (zip ks vs) = set (take (length vs) ks)"
    by (metis list.set_map)
  then show ?thesis
    by (simp add: dict_zip_def dict_update_keys)
qed

lemma dict_has_keys: "dict_has d k \<longleftrightarrow> k \<in> fst ` set d"
  by (simp add: dict_has_def map_of_eq_None_iff)

lemma dict_has_zip: "dict_has (dict_zip ks vs) k \<Longrightarrow> k \<in> set ks"
  unfolding dict_has_keys dict_zip_keys by (rule in_set_takeD)

section \<open>The refinement loop\<close>

lemma write_mask_coefficients: "l_coefficients (write_mask m st) = l_coefficients st"
  by (simp add: write_mask_def)

lemma line_depth_step_coefficients:
  "line_depth_step tr p st = Inr st' \<Longrightarrow> l_coefficients st' = l_coefficients st"
  by (auto simp: line_depth_step_def Let_def split: if_splits prod.splits elim!: and_then_InrE)

lemma fwhm_step_coefficients:
  "fwhm_step tr p st = Inr st' \<Longrightarrow> l_coefficients st' = l_coefficients st"
  by (auto simp: fwhm_step_def Let_def split: if_splits option.splits elim!: and_then_InrE)

lemma blending_fwhm_step_coefficients:
  "blending_fwhm_step p st = Inr st' \<Longrightarrow> l_coefficients st' = l_coefficients st"
  by (auto simp: blending_fwhm_step_def split: if_splits elim!: and_then_InrE)

lemma outlier_step_coefficients:
  assumes "outlier_step env tr p st = Inr st'"
  shows "l_coefficients st' = l_coefficients st"
proof (cases "l_iterate_on_continuum st")
  case False
  with assms show ?thesis
    by (simp add: outlier_step_def)
next
  case True
  with assms show ?thesis
    unfolding outlier_step_def
    by (simp only: if_True Let_def) (elim and_then_InrE, auto simp: write_mask_coefficients)
qed

lemma continuum_step_unit:
  "c_order (p_args p) = None \<Longrightarrow> continuum_step env tr p args st = Inr st'
     \<Longrightarrow> l_coefficients st' = [Some 1]"
  by (auto simp: continuum_step_def)

lemma round_body_unit:
  assumes "c_order (p_args p) = None" and "round_body env tr p args st = Inr st'"
  shows "l_coefficients st' = [Some 1]"
proof -
  from assms(2) obtain s1 s2 s3 s4 where
    s1: "continuum_step env tr p args st = Inr s1" and
    s2: "line_depth_step tr p s1 = Inr s2" and
    s3: "fwhm_step tr p s2 = Inr s3" and
    s4: "blending_fwhm_step p s3 = Inr s4" and
    s5: "outlier_step env tr p s4 = Inr st'"
    unfolding round_body_def by (elim and_then_InrE)
  show ?thesis
    using continuum_step_unit [OF assms(1) s1] line_depth_step_coefficients [OF s2]
      fwhm_step_coefficients [OF s3] blending_fwhm_step_coefficients [OF s4]
      outlier_step_coefficients [OF s5]
    by simp
qed

lemma rounds_unit:
  "c_order (p_args p) = None \<Longrightarrow> rounds env tr p args ks out st = (out', Inr st')
     \<Longrightarrow> ks \<noteq> [] \<or> l_coefficients st = [Some 1] \<Longrightarrow> l_coefficients st' = [Some 1]"
proof (induction ks arbitrary: out st)
  case Nil
  then show ?case by simp
next
  case (Cons kk ks)
  from Cons.prems(2) obtain s1 where
    body: "round_body env tr p args st = Inr s1" and
    rest: "rounds env tr p args ks (out @ [(kk, length (filter id (l_continuum_mask st)))]) s1
             = (out', Inr st')"
    by (auto simp: Let_def split: sum.splits)
  have "l_coefficients s1 = [Some 1]"
    using round_body_unit [OF Cons.prems(1) body] .
  then show ?case
    using Cons.IH [OF Cons.prems(1) rest] by simp
qed








lemma continuum_key_0: "continuum_key 0 = ''continuum.0''"
  by code_simp

lemma polyval_unit: "polyval [Some 1] (Some x) = Some 1"
  by (simp add: polyval_def fl_add_def fl_mul_def)

lemma continuum_coefficients_fixed:
  "''continuum.0'' \<notin> set (o_parameters ob)
     \<Longrightarrow> continuum_coefficients ob (dict_zip (o_parameters ob) x) = Inr (o_coefficients ob)"
  using dict_has_zip [of "o_parameters ob" x "''continuum.0''"]
  by (auto simp: continuum_coefficients_def)

lemma model_flux_continuum:
  assumes "model_flux env ob xd = Inr (b, c, m)"
    and "continuum_coefficients ob xd = Inr cs"
  shows "c = map (\<lambda>x. polyval cs (Some x)) (disp (o_data ob))"
  using assms unfolding model_flux_def Let_def
  by (elim and_then_InrE) auto

text \<open>
  Claim C10: with \<open>continuum_order=None\<close> no \<open>continuum.N\<close> key is among the
  parameters, the coefficient list left by the loop is \<open>[1]\<close>, every evaluation of
  the objective uses these coefficients, and the continuum factor of its model is 1 at
  every pixel.
\<close>

theorem unit_continuum_without_order:
  assumes "continuum_order args = None" and "prepare env tr data args = Inr p"
  shows "(\<forall>i. continuum_key i \<notin> set (p_parameters p))
       \<and> (\<forall>out st. refine env tr p args = (out, Inr st) \<longrightarrow>
            l_coefficients st = [Some 1]
          \<and> (\<forall>x. continuum_coefficients (make_objective tr p st) (dict_zip (p_parameters p) x)
                    = Inr [Some 1])
          \<and> (\<forall>x b c m. model_flux env (make_objective tr p st) (dict_zip (p_parameters p) x)
                          = Inr (b, c, m)
                 \<longrightarrow> c = replicate (length (disp (p_data p))) (Some 1)))"
proof -
  note pre = prepare_InrD [OF assms(2)]
  note chk = check_arguments_InrD [OF pre(1)]
  have order: "c_order (p_args p) = None"
    using chk(2) assms(1) by simp
  have nokeys: "continuum_key i \<notin> set (p_parameters p)" for i
    using no_continuum_keys_without_order [OF pre(2) chk(1) order] .
  have zero: "''continuum.0'' \<notin> set (p_parameters p)"
    using nokeys [of 0] unfolding continuum_key_0 .
  have loop: "l_coefficients st = [Some 1]
      \<and> (\<forall>x. continuum_coefficients (make_objective tr p st) (dict_zip (p_parameters p) x)
                = Inr [Some 1])
      \<and> (\<forall>x b c m. model_flux env (make_objective tr p st) (dict_zip (p_parameters p) x)
                      = Inr (b, c, m)
             \<longrightarrow> c = replicate (length (disp (p_data p))) (Some 1))"
    if ref: "refine env tr p args = (out, Inr st)" for out st
  proof -
    have "rounds env tr p args [0..<3] [] (initial_state p args) = (out, Inr st)"
      using ref by (simp add: refine_def)
    then have unit: "l_coefficients st = [Some 1]"
      using rounds_unit [OF order, of env tr args "[0..<3]" "[]" "initial_state p args" out st]
      by simp
    have coeffs: "continuum_coefficients (make_objective tr p st) (dict_zip (p_parameters p) x)
                    = Inr [Some 1]" for x
      using continuum_coefficients_fixed [of "make_objective tr p st" x] zero unit
      by (simp add: make_objective_def)
    have "c = replicate (length (disp (p_data p))) (Some 1)"
      if "model_flux env (make_objective tr p st) (dict_zip (p_parameters p) x) = Inr (b, c, m)"
      for x b c m
      using model_flux_continuum [OF that coeffs]
      by (simp add: make_objective_def polyval_unit map_replicate_const)
    then show ?thesis
      using unit coeffs by blast
  qed
  show ?thesis
    using nokeys loop by blast
qed

theorem unit_continuum_without_order_witness:
  "continuum_order default_args = None
   \<and> prepare simple_numerics blended_line line_data default_args
       = Inr (projr (prepare simple_numerics blended_line line_data default_args))
   \<and> refine simple_numerics blended_line
        (projr (prepare simple_numerics blended_line line_data default_args)) default_args
       = ([(0, 0), (1, 0), (2, 0)],
          Inr (projr (snd (refine simple_numerics blended_line
                 (projr (prepare simple_numerics blended_line line_data default_args))
                 default_args))))
   \<and> l_coefficients (projr (snd (refine simple_numerics blended_line
         (projr (prepare simple_numerics blended_line line_data default_args)) default_args)))
       = [Some 1]
   \<and> p_parameters (projr (prepare simple_numerics blended_line line_data default_args))
       = [''line_depth'', ''fwhm'', ''blending_fwhm'']
   \<and> map_sum id (\<lambda>(b, c, m). c)
         (model_flux simple_numerics
            (make_objective blended_line
               (projr (prepare simple_numerics blended_line line_data default_args))
               (projr (snd (refine simple_numerics blended_line
                  (projr (prepare simple_numerics blended_line line_data default_args))
                  default_args))))
            (dict_zip [''line_depth'', ''fwhm'', ''blending_fwhm''] [1 / 2, 2, 2]))
       = Inr [Some 1, Some 1, Some 1]"
proof -
  have a: "continuum_order default_args = None"
    by (simp add: default_args_def)
  have h: "prepare simple_numerics blended_line line_data default_args
             = Inr (projr (prepare simple_numerics blended_line line_data default_args))"
    by code_simp
  have r: "refine simple_numerics blended_line
             (projr (prepare simple_numerics blended_line line_data default_args)) default_args
           = ([(0, 0), (1, 0), (2, 0)],
              Inr (projr (snd (refine simple_numerics blended_line
                     (projr (prepare simple_numerics blended_line line_data default_args))
                     default_args))))"
    by code_simp
  have ps: "p_parameters (projr (prepare simple_numerics blended_line line_data default_args))
              = [''line_depth'', ''fwhm'', ''blending_fwhm'']"
    by code_simp
  have m: "map_sum id (\<lambda>(b, c, m). c)
         (model_flux simple_numerics
            (make_objective blended_line
               (projr (prepare simple_numerics blended_line line_data default_args))
               (projr (snd (refine simple_numerics blended_line
                  (projr (prepare simple_numerics blended_line line_data default_args))
                  default_args))))
            (dict_zip [''line_depth'', ''fwhm'', ''blending_fwhm''] [1 / 2, 2, 2]))
       = Inr [Some 1, Some 1, Some 1]"
    by code_simp
  show ?thesis
    using a h r ps m unit_continuum_without_order [OF a h] by blast
qed


section \<open>The results of a fit\<close>








section \<open>The constant of the equivalent width\<close>








section \<open>The convergence flag of the optimiser\<close>



















section \<open>The objective function\<close>






















end
